theory Spec2Isabelle
  imports Main "HOL-Library.Word" "HOL-Library.Sublist"
begin

unbundle bit_operations_syntax

section \<open>Data model (bqcmd.h)\<close>

text \<open>
  The firmware runs on an 8-bit microcontroller. Bytes are \<open>uint8_t\<close>, the
  sub-command code is a \<open>uint16_t\<close>; sizes (\<open>size_t\<close>) and counts that the
  code never lets wrap are natural numbers.
\<close>

type_synonym u8 = "8 word"
type_synonym u16 = "16 word"

definition MANUFACTURER_BLOCK_ACCESS_COMMAND :: u8 where
  "MANUFACTURER_BLOCK_ACCESS_COMMAND = 0x44"

definition SOFTWAREWIRE_BUFSIZE :: nat where
  "SOFTWAREWIRE_BUFSIZE = 32"

datatype DisplayFormat =
  FORMAT_DECIMAL | FORMAT_HEX | FORMAT_BINARY | FORMAT_TEXT | FORMAT_MIXED

text \<open>
  \<open>struct BitFieldInfo\<close>. The two \<open>const char*\<close> fields that the decoder tests
  against \<open>NULL\<close> before printing (\<open>description\<close>, \<open>inactiveValue\<close>) are
  options, \<open>None\<close> being the null pointer; the others are always printed.
\<close>

record BitFieldInfo =
  bitIndex :: u8
  label :: string
  description :: "string option"
  activeValue :: string
  inactiveValue :: "string option"

text \<open>
  \<open>struct MBACommandInfo\<close>. \<open>data\<close> is the array \<open>uint8_t data[8]\<close> (always
  eight bytes, zero-filled by the initialiser), \<open>bitfields\<close> the pointer to a schema
  (\<open>None\<close> for \<open>NULL\<close>). The struct's own field \<open>description\<close> is called
  \<open>cmdDescription\<close> here, the name being taken by the field of \<open>BitFieldInfo\<close>.
\<close>

record MBACommandInfo =
  cmd :: u16
  data :: "u8 list"
  dataLength :: u8
  name :: string
  access :: string
  displayFormat :: DisplayFormat
  bitfields :: "BitFieldInfo list option"
  bitfieldCount :: u8
  cmdDescription :: string

text \<open>The positional aggregate initialisers of the two tables.\<close>

abbreviation bit_entry :: "u8 \<Rightarrow> string \<Rightarrow> string \<Rightarrow> string \<Rightarrow> string \<Rightarrow> BitFieldInfo" where
  "bit_entry i l d a n \<equiv>
     \<lparr>bitIndex = i, label = l, description = Some d, activeValue = a, inactiveValue = Some n\<rparr>"

abbreviation mba_entry ::
  "u16 \<Rightarrow> u8 list \<Rightarrow> u8 \<Rightarrow> string \<Rightarrow> string \<Rightarrow> DisplayFormat \<Rightarrow> BitFieldInfo list option \<Rightarrow> u8
     \<Rightarrow> string \<Rightarrow> MBACommandInfo" where
  "mba_entry c d n nm a f b k t \<equiv>
     \<lparr>cmd = c, data = d, dataLength = n, name = nm, access = a, displayFormat = f,
      bitfields = b, bitfieldCount = k, cmdDescription = t\<rparr>"

subsection \<open>The bit-field schemas\<close>

definition safetyAlertBits :: "BitFieldInfo list" where
  "safetyAlertBits = [
     bit_entry 0 ''CUV'' ''Cell Undervoltage'' ''Detected'' ''Not Detected'',
     bit_entry 1 ''COV'' ''Cell Overvoltage'' ''Detected'' ''Not Detected'',
     bit_entry 2 ''OCC1'' ''Overcurrent During Charge 1'' ''Detected'' ''Not Detected'',
     bit_entry 3 ''OCC2'' ''Overcurrent During Charge 2'' ''Detected'' ''Not Detected'',
     bit_entry 4 ''OCD1'' ''Overcurrent During Discharge 1'' ''Detected'' ''Not Detected'',
     bit_entry 5 ''OCD2'' ''Overcurrent During Discharge 2'' ''Detected'' ''Not Detected'',
     bit_entry 6 ''RSVD'' ''Reserved'' '''' '''',
     bit_entry 7 ''AOLDL'' ''Overload During Discharge Latch'' ''Detected'' ''Not Detected'',
     bit_entry 8 ''RSVD'' ''Reserved'' '''' '''',
     bit_entry 9 ''ASCCL'' ''Short-Circuit During Charge Latch'' ''Detected'' ''Not Detected'',
     bit_entry 10 ''RSVD'' ''Reserved'' '''' '''',
     bit_entry 11 ''ASCDL'' ''Short-Circuit During Discharge Latch'' ''Detected'' ''Not Detected'',
     bit_entry 12 ''OTC'' ''Overtemperature During Charge'' ''Detected'' ''Not Detected'',
     bit_entry 13 ''OTD'' ''Overtemperature During Discharge'' ''Detected'' ''Not Detected'',
     bit_entry 14 ''CUVC'' ''Cell Undervoltage Compensated'' ''Detected'' ''Not Detected'',
     bit_entry 15 ''RSVD'' ''Reserved'' '''' '''',
     bit_entry 16 ''OTF'' ''Overtemperature FET'' ''Detected'' ''Not Detected'',
     bit_entry 17 ''RSVD'' ''Reserved'' '''' '''',
     bit_entry 18 ''PTO'' ''Precharge Timeout'' ''Detected'' ''Not Detected'',
     bit_entry 19 ''PTOS'' ''Precharge Timeout Suspend'' ''Detected'' ''Not Detected'',
     bit_entry 20 ''CTO'' ''Charge Timeout'' ''Detected'' ''Not Detected'',
     bit_entry 21 ''CTOS'' ''Charge Timeout Suspend'' ''Detected'' ''Not Detected'',
     bit_entry 22 ''OC'' ''Overcharge'' ''Detected'' ''Not Detected'',
     bit_entry 23 ''CHGC'' ''Overcharging Current'' ''Detected'' ''Not Detected'',
     bit_entry 24 ''CHGV'' ''Overcharging Voltage'' ''Detected'' ''Not Detected'',
     bit_entry 25 ''PCHGC'' ''Over-Precharge Current'' ''Detected'' ''Not Detected'',
     bit_entry 26 ''UTC'' ''Undertemperature During Charge'' ''Detected'' ''Not Detected'',
     bit_entry 27 ''UTD'' ''Undertemperature During Discharge'' ''Detected'' ''Not Detected'',
     bit_entry 28 ''COVL'' ''Cell Overvoltage Latch'' ''Detected'' ''Not Detected'',
     bit_entry 29 ''OCDL'' ''Overcurrent in Discharge'' ''Detected'' ''Not Detected'',
     bit_entry 30 ''RSVD'' ''Reserved'' '''' '''',
     bit_entry 31 ''RSVD'' ''Reserved'' '''' '''']"

definition safetyStatusBits :: "BitFieldInfo list" where
  "safetyStatusBits = [
     bit_entry 0 ''CUV'' ''Cell Undervoltage'' ''Detected'' ''Not Detected'',
     bit_entry 1 ''COV'' ''Cell Overvoltage'' ''Detected'' ''Not Detected'',
     bit_entry 2 ''OCC1'' ''Overcurrent During Charge 1'' ''Detected'' ''Not Detected'',
     bit_entry 3 ''OCC2'' ''Overcurrent During Charge 2'' ''Detected'' ''Not Detected'',
     bit_entry 4 ''OCD1'' ''Overcurrent During Discharge 1'' ''Detected'' ''Not Detected'',
     bit_entry 5 ''OCD2'' ''Overcurrent During Discharge 2'' ''Detected'' ''Not Detected'',
     bit_entry 6 ''AOLD'' ''Overload During Discharge'' ''Detected'' ''Not Detected'',
     bit_entry 7 ''AOLDL'' ''Overload During Discharge Latch'' ''Detected'' ''Not Detected'',
     bit_entry 8 ''ASCC'' ''Short-circuit During Charge'' ''Detected'' ''Not Detected'',
     bit_entry 9 ''ASCCL'' ''Short-circuit During Charge Latch'' ''Detected'' ''Not Detected'',
     bit_entry 10 ''ASCD'' ''Short-circuit During Discharge'' ''Detected'' ''Not Detected'',
     bit_entry 11 ''ASCDL'' ''Short-circuit During Discharge Latch'' ''Detected'' ''Not Detected'',
     bit_entry 12 ''OTC'' ''Overtemperature During Charge'' ''Detected'' ''Not Detected'',
     bit_entry 13 ''OTD'' ''Overtemperature During Discharge'' ''Detected'' ''Not Detected'',
     bit_entry 14 ''CUVC'' ''Cell Undervoltage Compensated'' ''Detected'' ''Not Detected'',
     bit_entry 15 ''RSVD'' ''Reserved'' '''' '''',
     bit_entry 16 ''OTF'' ''Overtemperature FET'' ''Detected'' ''Not Detected'',
     bit_entry 17 ''RSVD'' ''Reserved'' '''' '''',
     bit_entry 18 ''PTO'' ''Precharge Timeout'' ''Detected'' ''Not Detected'',
     bit_entry 19 ''RSVD'' ''Reserved'' '''' '''',
     bit_entry 20 ''CTO'' ''Charge Timeout'' ''Detected'' ''Not Detected'',
     bit_entry 21 ''RSVD'' ''Reserved'' '''' '''',
     bit_entry 22 ''OC'' ''Overcharge'' ''Detected'' ''Not Detected'',
     bit_entry 23 ''CHGC'' ''Overcharging Current'' ''Detected'' ''Not Detected'',
     bit_entry 24 ''CHGV'' ''Overcharging Voltage'' ''Detected'' ''Not Detected'',
     bit_entry 25 ''PCHGC'' ''Over-Precharge Current'' ''Detected'' ''Not Detected'',
     bit_entry 26 ''UTC'' ''Undertemperature During Charge'' ''Detected'' ''Not Detected'',
     bit_entry 27 ''UTD'' ''Undertemperature During Discharge'' ''Detected'' ''Not Detected'',
     bit_entry 28 ''COVL'' ''Cell Overvoltage Latch'' ''Detected'' ''Not Detected'',
     bit_entry 29 ''OCDL'' ''Overcurrent in Discharge'' ''Detected'' ''Not Detected'',
     bit_entry 30 ''RSVD'' ''Reserved'' '''' '''',
     bit_entry 31 ''RSVD'' ''Reserved'' '''' '''']"

definition pfAlertBits :: "BitFieldInfo list" where
  "pfAlertBits = [
     bit_entry 0 ''SUV'' ''Safety Cell Undervoltage Failure'' ''Detected'' ''Not Detected'',
     bit_entry 1 ''SOV'' ''Safety Cell Overvoltage Failure'' ''Detected'' ''Not Detected'',
     bit_entry 2 ''SOCC'' ''Safety Overcurrent in Charge'' ''Detected'' ''Not Detected'',
     bit_entry 3 ''SOCD'' ''Safety Overcurrent in Discharge'' ''Detected'' ''Not Detected'',
     bit_entry 4 ''SOT'' ''Safety Overtemperature Cell Failure'' ''Detected'' ''Not Detected'',
     bit_entry 5 ''COVL'' ''Cell Overvoltage Latch'' ''Detected'' ''Not Detected'',
     bit_entry 6 ''SOTF'' ''Safety Overtemperature FET Failure'' ''Detected'' ''Not Detected'',
     bit_entry 7 ''QIM'' ''QMax Imbalance Failure'' ''Detected'' ''Not Detected'',
     bit_entry 8 ''CB'' ''Cell Balancing Failure'' ''Detected'' ''Not Detected'',
     bit_entry 9 ''IMP'' ''Impedance Failure'' ''Detected'' ''Not Detected'',
     bit_entry 10 ''CD'' ''Capacity Degradation Failure'' ''Detected'' ''Not Detected'',
     bit_entry 11 ''VIMR'' ''Voltage Imbalance At Rest'' ''Detected'' ''Not Detected'',
     bit_entry 12 ''VIMA'' ''Voltage Imbalance While Active'' ''Detected'' ''Not Detected'',
     bit_entry 13 ''AOLDL'' ''Overload in Discharge'' ''Detected'' ''Not Detected'',
     bit_entry 14 ''ASCCL'' ''Short Circuit in Charge'' ''Detected'' ''Not Detected'',
     bit_entry 15 ''ASCDL'' ''Short Circuit in Discharge'' ''Detected'' ''Not Detected'',
     bit_entry 16 ''CFETF'' ''Charge FET Failure'' ''Detected'' ''Not Detected'',
     bit_entry 17 ''DFETF'' ''Discharge FET Failure'' ''Detected'' ''Not Detected'',
     bit_entry 18 ''OCDL'' ''Overcurrent in Discharge'' ''Detected'' ''Not Detected'',
     bit_entry 19 ''FUSE'' ''Chemical Fuse Failure'' ''Detected'' ''Not Detected'',
     bit_entry 20 ''AFER'' ''AFE Register Failure'' ''Detected'' ''Not Detected'',
     bit_entry 21 ''AFEC'' ''AFE Communication Failure'' ''Detected'' ''Not Detected'',
     bit_entry 22 ''2LVL'' ''Second Level Protector Failure'' ''Detected'' ''Not Detected'',
     bit_entry 23 ''RSVD'' ''Reserved'' '''' '''',
     bit_entry 24 ''RSVD'' ''Reserved'' '''' '''',
     bit_entry 25 ''RSVD'' ''Reserved'' '''' '''',
     bit_entry 26 ''RSVD'' ''Reserved'' '''' '''',
     bit_entry 27 ''RSVD'' ''Reserved'' '''' '''',
     bit_entry 28 ''TS1'' ''Open Thermistor TS1 Failure'' ''Detected'' ''Not Detected'',
     bit_entry 29 ''TS2'' ''Open Thermistor TS2 Failure'' ''Detected'' ''Not Detected'',
     bit_entry 30 ''TS3'' ''Open Thermistor TS3 Failure'' ''Detected'' ''Not Detected'',
     bit_entry 31 ''TS4'' ''Open Thermistor TS4 Failure'' ''Detected'' ''Not Detected'']"

definition pfStatusBits :: "BitFieldInfo list" where
  "pfStatusBits = [
     bit_entry 0 ''SUV'' ''Safety Cell Undervoltage Failure'' ''Detected'' ''Not Detected'',
     bit_entry 1 ''SOV'' ''Safety Cell Overvoltage Failure'' ''Detected'' ''Not Detected'',
     bit_entry 2 ''SOCC'' ''Safety Overcurrent in Charge'' ''Detected'' ''Not Detected'',
     bit_entry 3 ''SOCD'' ''Safety Overcurrent in Discharge'' ''Detected'' ''Not Detected'',
     bit_entry 4 ''SOT'' ''Safety Overtemperature Cell Failure'' ''Detected'' ''Not Detected'',
     bit_entry 5 ''COVL'' ''Cell Overvoltage Latch'' ''Detected'' ''Not Detected'',
     bit_entry 6 ''SOTF'' ''Safety Overtemperature FET Failure'' ''Detected'' ''Not Detected'',
     bit_entry 7 ''QIM'' ''QMax Imbalance Failure'' ''Detected'' ''Not Detected'',
     bit_entry 8 ''CB'' ''Cell Balancing Failure'' ''Detected'' ''Not Detected'',
     bit_entry 9 ''IMP'' ''Impedance Failure'' ''Detected'' ''Not Detected'',
     bit_entry 10 ''CD'' ''Capacity Degradation Failure'' ''Detected'' ''Not Detected'',
     bit_entry 11 ''VIMR'' ''Voltage Imbalance At Rest'' ''Detected'' ''Not Detected'',
     bit_entry 12 ''VIMA'' ''Voltage Imbalance While Active'' ''Detected'' ''Not Detected'',
     bit_entry 13 ''AOLDL'' ''Overload in Discharge'' ''Detected'' ''Not Detected'',
     bit_entry 14 ''ASCCL'' ''Short Circuit in Charge'' ''Detected'' ''Not Detected'',
     bit_entry 15 ''ASCDL'' ''Short Circuit in Discharge'' ''Detected'' ''Not Detected'',
     bit_entry 16 ''CFETF'' ''Charge FET Failure'' ''Detected'' ''Not Detected'',
     bit_entry 17 ''DFETF'' ''Discharge FET Failure'' ''Detected'' ''Not Detected'',
     bit_entry 18 ''OCDL'' ''Overcurrent in Discharge'' ''Detected'' ''Not Detected'',
     bit_entry 19 ''FUSE'' ''Chemical Fuse Failure'' ''Detected'' ''Not Detected'',
     bit_entry 20 ''AFER'' ''AFE Register Failure'' ''Detected'' ''Not Detected'',
     bit_entry 21 ''AFEC'' ''AFE Communication Failure'' ''Detected'' ''Not Detected'',
     bit_entry 22 ''2LVL'' ''Second Level Protector Failure'' ''Detected'' ''Not Detected'',
     bit_entry 23 ''PTC'' ''PTC Failure'' ''Detected'' ''Not Detected'',
     bit_entry 24 ''IFC'' ''Instruction Flash Checksum Failure'' ''Detected'' ''Not Detected'',
     bit_entry 25 ''RSVD'' ''Reserved'' '''' '''',
     bit_entry 26 ''DFW'' ''Data Flash Wearout Failure'' ''Detected'' ''Not Detected'',
     bit_entry 27 ''RSVD'' ''Reserved'' '''' '''',
     bit_entry 28 ''TS1'' ''Open Thermistor TS1 Failure'' ''Detected'' ''Not Detected'',
     bit_entry 29 ''TS2'' ''Open Thermistor TS2 Failure'' ''Detected'' ''Not Detected'',
     bit_entry 30 ''TS3'' ''Open Thermistor TS3 Failure'' ''Detected'' ''Not Detected'',
     bit_entry 31 ''TS4'' ''Open Thermistor TS4 Failure'' ''Detected'' ''Not Detected'']"

definition operationStatusBits :: "BitFieldInfo list" where
  "operationStatusBits = [
     bit_entry 0 ''PRES'' ''System Present (low)'' ''Active'' ''Inactive'',
     bit_entry 1 ''DSG'' ''Discharge FET status'' ''Active'' ''Inactive'',
     bit_entry 2 ''CHG'' ''Charge FET status'' ''Active'' ''Inactive'',
     bit_entry 3 ''PCHG'' ''Precharge FET status'' ''Active'' ''Inactive'',
     bit_entry 4 ''RSVD'' ''Reserved'' '''' '''',
     bit_entry 5 ''FUSE'' ''Fuse status'' ''Active'' ''Inactive'',
     bit_entry 6 ''RSVD'' ''Reserved'' '''' '''',
     bit_entry 7 ''BTP_INT'' ''Battery Trip Point Interrupt'' ''Active'' ''Inactive'',
     bit_entry 8 ''SEC0'' ''Security Mode Bit 0 (00-Reserved 01-FullAccess 10-Unsealed 11-Sealed)'' '''' '''',
     bit_entry 9 ''SEC1'' ''Security Mode Bit 1 (00-Reserved 01-FullAccess 10-Unsealed 11-Sealed)'' '''' '''',
     bit_entry 10 ''SDV'' ''Shutdown due to low pack voltage'' ''Active'' ''Inactive'',
     bit_entry 11 ''SS'' ''Safety Status (OR of all safety bits)'' ''Active'' ''Inactive'',
     bit_entry 12 ''PF'' ''Permanent Failure mode'' ''Active'' ''Inactive'',
     bit_entry 13 ''XDSG'' ''Discharging disabled'' ''Active'' ''Inactive'',
     bit_entry 14 ''XCHG'' ''Charging disabled'' ''Active'' ''Inactive'',
     bit_entry 15 ''SLEEP'' ''Sleep mode conditions met'' ''Active'' ''Inactive'',
     bit_entry 16 ''SDM'' ''Shutdown via command'' ''Active'' ''Inactive'',
     bit_entry 17 ''LED'' ''LED Display status'' ''On'' ''Off'',
     bit_entry 18 ''AUTH'' ''Authentication in progress'' ''Active'' ''Inactive'',
     bit_entry 19 ''CALM'' ''Auto CC Offset Calibration (MAC)'' ''Active'' ''Inactive'',
     bit_entry 20 ''CAL'' ''Calibration output (ADC/CC)'' ''Available'' ''Not available'',
     bit_entry 21 ''CAL_OFFSET'' ''Calibration Output (Shorted CC)'' ''Available'' ''Not available'',
     bit_entry 22 ''XL'' ''400-kHz SMBus mode'' ''Active'' ''Inactive'',
     bit_entry 23 ''SLEEPM'' ''SLEEP mode via command'' ''Active'' ''Inactive'',
     bit_entry 24 ''INIT'' ''Initialization after full reset'' ''Active'' ''Inactive'',
     bit_entry 25 ''SMBLCAL'' ''Auto CC Calibration (bus low)'' ''Started'' ''Not started'',
     bit_entry 26 ''SLPAD'' ''ADC Measurement in Sleep'' ''Active'' ''Inactive'',
     bit_entry 27 ''SLPCC'' ''CC Measurement in Sleep'' ''Active'' ''Inactive'',
     bit_entry 28 ''CB'' ''Cell Balancing status'' ''Active'' ''Inactive'',
     bit_entry 29 ''EMSHUT'' ''Emergency FET Shutdown'' ''Active'' ''Inactive'',
     bit_entry 30 ''RSVD'' ''Reserved'' '''' '''',
     bit_entry 31 ''RSVD'' ''Reserved'' '''' '''']"

definition ManufacturingStatusBits :: "BitFieldInfo list" where
  "ManufacturingStatusBits = [
     bit_entry 0 ''PCHG'' ''Precharge FET Test.'' ''Active'' ''Disabled'',
     bit_entry 1 ''CHG'' ''Charge FET Test.'' ''Active'' ''Disabled'',
     bit_entry 2 ''DSG'' ''Discharge FET Test.'' ''Active'' ''Disabled'',
     bit_entry 3 ''GAUGE'' ''Gas Gauging.'' ''Enabled'' ''Disabled'',
     bit_entry 4 ''FET'' ''All FET Action.'' ''Enabled'' ''Disabled'',
     bit_entry 5 ''LF'' ''Lifetime data collection.'' ''Enabled'' ''Disabled'',
     bit_entry 6 ''PF'' ''Permanent Failure functionality.'' ''Enabled'' ''Disabled'',
     bit_entry 7 ''BBR'' ''Black box recorder.'' ''Enabled'' ''Disabled'',
     bit_entry 8 ''FUSE'' ''FUSE action.'' ''Enabled'' ''Disabled'',
     bit_entry 9 ''LED'' ''LED Display.'' ''On'' ''Off'',
     bit_entry 10 ''RSVD'' ''Reserved'' ''Enabled'' ''Disabled'',
     bit_entry 11 ''RSVD'' ''Reserved'' ''Enabled'' ''Disabled'',
     bit_entry 12 ''RSVD'' ''Reserved'' ''Enabled'' ''Disabled'',
     bit_entry 13 ''RSVD'' ''Reserved'' ''Enabled'' ''Disabled'',
     bit_entry 14 ''LT_TS'' ''Lifetime Speed Up mode.'' ''Enabled'' ''Disabled'',
     bit_entry 15 ''CALTS'' ''CAL ADC or CC output on ManufacturerData().'' ''Enabled'' ''Disabled'']"

definition MBACommandsInfo :: "MBACommandInfo list" where
  "MBACommandsInfo = [
     mba_entry 0x0001 [0, 0, 0, 0, 0, 0, 0, 0] 0 ''DeviceType'' ''R'' FORMAT_HEX None 0
       ''Identifies the battery device type to verify model and family compatibility.'',
     mba_entry 0x0002 [0, 0, 0, 0, 0, 0, 0, 0] 0 ''FirmwareVersion'' ''R'' FORMAT_HEX None 0
       ''Reports the firmware version running on the battery controller, useful for compatibility and updates.'',
     mba_entry 0x0003 [0, 0, 0, 0, 0, 0, 0, 0] 0 ''HardwareVersion'' ''R'' FORMAT_HEX None 0
       ''Indicates the hardware revision of the device to identify physical variations or improvements.'',
     mba_entry 0x0024 [0, 0, 0, 0, 0, 0, 0, 0] 0 ''PermanentFailure'' ''W'' FORMAT_HEX None 0
       ''This command enables/disables Permanent Failure to help streamline production testing.'',
     mba_entry 0x0028 [0, 0, 0, 0, 0, 0, 0, 0] 0 ''LifetimeDataReset'' ''W'' FORMAT_HEX None 0
       ''Resets accumulated lifetime data such as cycle count and usage statistics.'',
     mba_entry 0x0029 [0, 0, 0, 0, 0, 0, 0, 0] 0 ''PermanentFailureDataReset'' ''W'' FORMAT_HEX None 0
       ''Resets permanent failure data flags to clear fault status.'',
     mba_entry 0x002A [0, 0, 0, 0, 0, 0, 0, 0] 0 ''BlackBoxRecorderReset'' ''W'' FORMAT_HEX None 0
       ''Resets the black box event recorder to clear logged fault history.'',
     mba_entry 0x0030 [0, 0, 0, 0, 0, 0, 0, 0] 0 ''SealDevice'' ''W'' FORMAT_HEX None 0
       ''Seals the device to prevent further modifications to configuration or data.'',
     mba_entry 0x0041 [0, 0, 0, 0, 0, 0, 0, 0] 0 ''DeviceReset'' ''W'' FORMAT_HEX None 0
       ''Command to reset the device, reinitializing all registers and states.'',
     mba_entry 0x0050 [0, 0, 0, 0, 0, 0, 0, 0] 0 ''SafetyAlert'' ''R'' FORMAT_BINARY (Some safetyAlertBits) 32
       ''Returns current safety alert flags indicating critical conditions such as overvoltage or overtemperature.'',
     mba_entry 0x0051 [0, 0, 0, 0, 0, 0, 0, 0] 0 ''SafetyStatus'' ''R'' FORMAT_BINARY (Some safetyStatusBits) 32
       ''Reports the current safety status of the device, showing ongoing safety-related events.'',
     mba_entry 0x0052 [0, 0, 0, 0, 0, 0, 0, 0] 0 ''PFAlert'' ''R'' FORMAT_BINARY (Some pfAlertBits) 32
       ''Indicates permanent failure alerts that require immediate attention or servicing.'',
     mba_entry 0x0053 [0, 0, 0, 0, 0, 0, 0, 0] 0 ''PFStatus'' ''R'' FORMAT_BINARY (Some pfStatusBits) 32
       ''Reports the status of permanent failure flags for battery health monitoring.'',
     mba_entry 0x0054 [0, 0, 0, 0, 0, 0, 0, 0] 0 ''OperationStatus'' ''R'' FORMAT_BINARY (Some operationStatusBits) 32
       ''General operational status reporting the current mode and condition of the device.'',
     mba_entry 0x0057 [0, 0, 0, 0, 0, 0, 0, 0] 0 ''ManufacturingStatus'' ''R'' FORMAT_BINARY (Some ManufacturingStatusBits) 16
       ''Contains informations about activated modes (PF, etc ..)'',
     mba_entry 0x7EE0 [0, 0, 0, 0, 0, 0, 0, 0] 0 ''UnsealKey1'' ''W'' FORMAT_HEX None 0
       ''Key to change security mode from SEALED to UNSEALED 1/2. The two words must be sent within 4 s.'',
     mba_entry 0xCCDF [0, 0, 0, 0, 0, 0, 0, 0] 0 ''UnsealKey2'' ''W'' FORMAT_HEX None 0
       ''Key to change security mode from SEALED to UNSEALED 2/2. The two words must be sent within 4 s.'',
     mba_entry 0x4062 [0, 0, 0, 0, 0, 0, 0, 0] 0 ''PF2RegisterRead'' ''R'' FORMAT_HEX None 0
       ''Custom DJI register key where we can find the PF2 flag.'',
     mba_entry 0x4062 [0x01, 0x23, 0x45, 0x67, 0, 0, 0, 0] 4 ''ClearPF2'' ''W'' FORMAT_HEX None 0
       ''Overwrite the custom DJI register key where we can find the PF2 flag.'']"

section \<open>Memory and the byte-order reversal (utility.cpp)\<close>

text \<open>
  The response buffer is a pointer into memory. \<open>cells\<close> gives the byte at each offset
  from that pointer: offsets below the capacity are the caller's buffer, offsets from the
  capacity on are whatever object follows it. \<open>writes\<close> logs the offset of every store,
  in order, so that a store outside the buffer shows.
\<close>

record memory =
  cells :: "nat \<Rightarrow> u8"
  writes :: "nat list"

definition poke :: "nat \<Rightarrow> u8 \<Rightarrow> memory \<Rightarrow> memory" where
  "poke i v m = m\<lparr>cells := (cells m)(i := v), writes := writes m @ [i]\<rparr>"

text \<open>
  \<^verbatim>\<open>for (size_t i = 0; i < bufferSize / 2; ++i) {
    uint8_t temp = buffer[i];
    buffer[i] = buffer[bufferSize - 1 - i];
    buffer[bufferSize - 1 - i] = temp; }\<close>
\<close>

function reverseBufferEndian_loop :: "nat \<Rightarrow> nat \<Rightarrow> memory \<Rightarrow> memory" where
  "reverseBufferEndian_loop i bufferSize m =
     (if i < bufferSize div 2 then
        (let temp = cells m i;
             m1 = poke i (cells m (bufferSize - 1 - i)) m;
             m2 = poke (bufferSize - 1 - i) temp m1
         in reverseBufferEndian_loop (Suc i) bufferSize m2)
      else m)"
  by pat_completeness auto
termination
  by (relation "measure (\<lambda>(i, bufferSize, m). bufferSize div 2 - i)") auto

declare reverseBufferEndian_loop.simps [simp del]

definition reverseBufferEndian :: "nat \<Rightarrow> memory \<Rightarrow> memory" where
  "reverseBufferEndian bufferSize m = reverseBufferEndian_loop 0 bufferSize m"

section \<open>Observable effects\<close>

text \<open>
  What a call does to the outside world, in order: text sent to the serial console, waits,
  and calls to the two-wire bus layer. A function that only prints returns the events it
  emits; \<open>Serial.println(x)\<close> is the print of \<open>x\<close> followed by \<open>Newline\<close>, and
  \<open>Serial.println()\<close> is \<open>Newline\<close> alone (a blank line when it follows a line end).
\<close>

datatype event =
    Print string
  | PrintDec nat
  | PrintHex nat
  | Newline
  | Delay nat
  | WireBegin u8
  | WireWrite u8
  | WireEnd bool
  | WireRequest u8 u8

definition println :: "string \<Rightarrow> event list" where
  "println s = [Print s, Newline]"

text \<open>The macros \<open>lowByte\<close> and \<open>highByte\<close> of the platform header.\<close>

definition lowByte :: "u16 \<Rightarrow> u8" where
  "lowByte w = ucast (w AND 0xFF)"

definition highByte :: "u16 \<Rightarrow> u8" where
  "highByte w = ucast (drop_bit 8 w)"

text \<open>
  The recurring pair \<^verbatim>\<open>if (x < 0x10) Serial.print("0"); Serial.print(x, HEX);\<close>
\<close>

definition printHexByte :: "u8 \<Rightarrow> event list" where
  "printHexByte x = (if x < 0x10 then [Print ''0''] else []) @ [PrintHex (unat x)]"

subsection \<open>Presentation (utility.cpp)\<close>

definition printMBACommandError :: "int \<Rightarrow> event list" where
  "printMBACommandError result =
     (if result = 1 then println ''Error: Data too long to fit in transmit buffer.''
      else if result = 2 then println ''Error: Received NACK on transmit of address.''
      else if result = 3 then println ''Error: Received NACK on transmit of data.''
      else if result = 4 then println ''Error: Other error occurred.''
      else if result = 5 then println ''Error: Timeout occurred.''
      else println ''Error: Unknown error code.'')"

definition printBuffer :: "(nat \<Rightarrow> u8) \<Rightarrow> nat \<Rightarrow> DisplayFormat \<Rightarrow> event list" where
  "printBuffer buffer bufferSize fmt =
     Print ''Data (hex): '' #
     concat (map (\<lambda>i. Print ''0x'' # printHexByte (buffer i) @ [Print '' '']) [0..<bufferSize]) @
     [Newline] @
     (case fmt of
        FORMAT_DECIMAL \<Rightarrow>
          Print ''Data (dec): '' #
          concat (map (\<lambda>i. [PrintDec (unat (buffer i)), Print '' '']) [0..<bufferSize]) @
          [Newline]
      | FORMAT_BINARY \<Rightarrow>
          Print ''Data (bin): '' #
          concat (map (\<lambda>i. map (\<lambda>b. PrintDec (unat (drop_bit b (buffer i) AND 1))) (rev [0..<8]) @
                             [Print '' '']) [0..<bufferSize]) @
          [Newline]
      | FORMAT_TEXT \<Rightarrow>
          Print ''Data (txt): '' #
          map (\<lambda>i. if 32 \<le> buffer i \<and> buffer i \<le> 126 then Print [char_of (unat (buffer i))]
                    else Print ''.'') [0..<bufferSize] @
          [Newline]
      | FORMAT_HEX \<Rightarrow> []
      | FORMAT_MIXED \<Rightarrow> [])"

text \<open>
  The bit-field decoder. \<^verbatim>\<open>uint8_t byteIndex = (bitfieldsCount/8) - (b->bitIndex / 8) - 1;\<close>
  is computed on \<open>int\<close> (both operands are promoted) and then cut to eight bits.
\<close>

definition byteIndex :: "u8 \<Rightarrow> BitFieldInfo \<Rightarrow> u8" where
  "byteIndex bitfieldsCount b =
     word_of_int (int (unat bitfieldsCount div 8) - int (unat (bitIndex b) div 8) - 1)"

definition bitInByte :: "BitFieldInfo \<Rightarrow> u8" where
  "bitInByte b = bitIndex b mod 8"

definition bitSet :: "(nat \<Rightarrow> u8) \<Rightarrow> nat \<Rightarrow> u8 \<Rightarrow> BitFieldInfo \<Rightarrow> bool" where
  "bitSet buffer bufferSize bitfieldsCount b =
     (if unat (byteIndex bitfieldsCount b) < bufferSize
      then drop_bit (unat (bitInByte b)) (buffer (unat (byteIndex bitfieldsCount b))) AND 1 \<noteq> 0
      else False)"

text \<open>One turn of the loop of \<open>printBitFields\<close>: the line of one descriptor.\<close>

definition printBitField :: "(nat \<Rightarrow> u8) \<Rightarrow> nat \<Rightarrow> u8 \<Rightarrow> BitFieldInfo \<Rightarrow> event list" where
  "printBitField buffer bufferSize bitfieldsCount b =
     [Print ''Bit '', PrintDec (unat (bitIndex b)), Print '' ('', Print (label b), Print ''): ''] @
     (if bitSet buffer bufferSize bitfieldsCount b
      then [Print ''1 = '', Print (activeValue b)]
      else Print ''0 = '' #
           (case inactiveValue b of Some s \<Rightarrow> [Print s] | None \<Rightarrow> [Print ''Inactive''])) @
     (case description b of Some d \<Rightarrow> Print '' - '' # println d | None \<Rightarrow> [])"

text \<open>
  The loop reads \<open>bitfields[i]\<close> for every \<open>i\<close> below \<open>bitfieldsCount\<close>; the caller
  owes a count that is at most the length of the array.
\<close>

definition printBitFields ::
  "(nat \<Rightarrow> u8) \<Rightarrow> nat \<Rightarrow> BitFieldInfo list \<Rightarrow> u8 \<Rightarrow> event list" where
  "printBitFields buffer bufferSize bitfields' bitfieldsCount =
     concat (map (\<lambda>i. printBitField buffer bufferSize bitfieldsCount (bitfields' ! i))
               [0..<unat bitfieldsCount])"

definition printMBACommandInfo :: "MBACommandInfo \<Rightarrow> event list" where
  "printMBACommandInfo cmdInfo =
     [Print (name cmdInfo), Print '' : CMD=0x''] @
     printHexByte MANUFACTURER_BLOCK_ACCESS_COMMAND @
     [Print '', SUBCMD=0x''] @
     printHexByte (highByte (cmd cmdInfo)) @
     printHexByte (lowByte (cmd cmdInfo)) @
     (if dataLength cmdInfo > 0
      then Print '' DATA=0x'' #
           concat (map (\<lambda>i. printHexByte (data cmdInfo ! i)) [0..<unat (dataLength cmdInfo)])
      else []) @
     [Newline]"

section \<open>Catalog lookup (bqcmd.cpp)\<close>

text \<open>
  The scan of \<open>getMBACommandInfoByName\<close>; \<open>strcmp(a, b) == 0\<close> is equality of the two
  texts. The loop yields the index of the entry whose address the function returns.
\<close>

function getMBACommandInfoByName_loop :: "nat \<Rightarrow> string \<Rightarrow> nat option" where
  "getMBACommandInfoByName_loop i s =
     (if i < length MBACommandsInfo then
        (if name (MBACommandsInfo ! i) = s then Some i
         else getMBACommandInfoByName_loop (Suc i) s)
      else None)"
  by pat_completeness auto
termination
  by (relation "measure (\<lambda>(i, s). length MBACommandsInfo - i)") auto

declare getMBACommandInfoByName_loop.simps [simp del]

text \<open>The argument is a \<open>const char*\<close>: \<open>None\<close> is the null pointer.\<close>

definition getMBACommandInfoByName :: "string option \<Rightarrow> MBACommandInfo option" where
  "getMBACommandInfoByName nm =
     (case nm of
        None \<Rightarrow> None
      | Some s \<Rightarrow> map_option (\<lambda>i. MBACommandsInfo ! i) (getMBACommandInfoByName_loop 0 s))"

section \<open>The bus layer\<close>

text \<open>
  The two-wire library is not part of the firmware; this is what the firmware relies on.
  \<open>device\<close> is the other end of the bus during one command: the result of the
  \<open>endTransmission\<close> that closes the write frame, the result of the one that opens the
  read, the bytes the device clocks out on the read request, and the bytes that become
  readable during each later 10 ms wait. \<open>wire\<close> is the library's receive buffer, which
  never holds more than \<open>SOFTWAREWIRE_BUFSIZE\<close> bytes nor more than were requested:
  \<open>Wire.available()\<close> is the number of bytes not yet read, \<open>Wire.read()\<close> takes the
  next one and is \<open>-1\<close> (the byte \<open>0xFF\<close>) when there is none.
\<close>

record device =
  sendResult :: int
  readResult :: int
  response :: "u8 list"
  late :: "u8 list list"

record wire =
  rxBuf :: "u8 list"
  rxGet :: nat
  incoming :: "u8 list list"

definition wire_requestFrom :: "device \<Rightarrow> u8 \<Rightarrow> wire" where
  "wire_requestFrom dev quantity =
     \<lparr>rxBuf = take (min (unat quantity) SOFTWAREWIRE_BUFSIZE) (response dev),
      rxGet = 0,
      incoming = late dev\<rparr>"

definition wire_available :: "wire \<Rightarrow> nat" where
  "wire_available wr = length (rxBuf wr) - rxGet wr"

definition wire_read :: "wire \<Rightarrow> u8 \<times> wire" where
  "wire_read wr =
     (if rxGet wr < length (rxBuf wr)
      then (rxBuf wr ! rxGet wr, wr\<lparr>rxGet := Suc (rxGet wr)\<rparr>)
      else (0xFF, wr))"

definition wire_arrive :: "wire \<Rightarrow> wire" where
  "wire_arrive wr =
     (case incoming wr of
        [] \<Rightarrow> wr
      | c # cs \<Rightarrow> wr\<lparr>rxBuf := take SOFTWAREWIRE_BUFSIZE (rxBuf wr @ c), incoming := cs\<rparr>)"

section \<open>Transaction engine (bqcmd.cpp)\<close>

definition sendMBACommand :: "device \<Rightarrow> u8 \<Rightarrow> MBACommandInfo \<Rightarrow> bool \<times> event list" where
  "sendMBACommand dev address cmdInfo =
     (let tx = [WireBegin address,
                WireWrite MANUFACTURER_BLOCK_ACCESS_COMMAND,
                WireWrite (2 + dataLength cmdInfo),
                WireWrite (lowByte (cmd cmdInfo)),
                WireWrite (highByte (cmd cmdInfo))] @
               map (\<lambda>i. WireWrite (data cmdInfo ! i)) [0..<unat (dataLength cmdInfo)] @
               [WireEnd True];
          result = sendResult dev
      in if result = 0 then (True, tx @ [Delay 20])
         else (False, tx @ [Delay 20] @ printMBACommandError result))"

text \<open>
  The polling loop of \<open>readMBACommand\<close>. \<open>elapsed\<close> is \<open>millis() - start\<close>: the clock
  advances by the 10 ms of each \<open>delay(10)\<close>, so the loop gives up in its 1002nd turn
  at the latest.
\<close>

definition timeout_message :: "nat \<Rightarrow> event list" where
  "timeout_message n =
     [Print ''Timeout waiting for full data block, only '', PrintDec n] @
     println '' bytes readable.''"

function readMBACommand_wait :: "u8 \<Rightarrow> nat \<Rightarrow> wire \<Rightarrow> bool \<times> wire \<times> event list" where
  "readMBACommand_wait len elapsed wr =
     (if wire_available wr < unat len \<and> wire_available wr < SOFTWAREWIRE_BUFSIZE - 1 then
        (if elapsed > 10000 then (False, wr, timeout_message (wire_available wr))
         else
           (case readMBACommand_wait len (elapsed + 10) (wire_arrive wr) of
              (ok, wr', es) \<Rightarrow> (ok, wr', Delay 10 # es)))
      else (True, wr, []))"
  by pat_completeness auto
termination
  by (relation "measure (\<lambda>(len, elapsed, wr). 10010 - elapsed)") auto

declare readMBACommand_wait.simps [simp del]

text \<open>
  \<^verbatim>\<open>for (uint8_t i = 0; i < available_bytes; i++) buffer[i] = Wire.read();\<close>
  The receive buffer holds at most 32 bytes, so the 8-bit counter does not wrap.
\<close>

function readMBACommand_copy :: "nat \<Rightarrow> nat \<Rightarrow> wire \<Rightarrow> memory \<Rightarrow> wire \<times> memory" where
  "readMBACommand_copy i available_bytes wr m =
     (if i < available_bytes then
        (case wire_read wr of
           (b, wr') \<Rightarrow> readMBACommand_copy (Suc i) available_bytes wr' (poke i b m))
      else (wr, m))"
  by pat_completeness auto
termination
  by (relation "measure (\<lambda>(i, available_bytes, wr, m). available_bytes - i)") auto

declare readMBACommand_copy.simps [simp del]

text \<open>The sign U+26A0 U+FE0F that opens the two warnings, as its UTF-8 bytes.\<close>

definition warning_sign :: string where
  "warning_sign = [char_of (0xE2 :: nat), char_of (0x9A :: nat), char_of (0xA0 :: nat),
                   char_of (0xEF :: nat), char_of (0xB8 :: nat), char_of (0x8F :: nat)]"

definition readMBACommand ::
  "device \<Rightarrow> u8 \<Rightarrow> MBACommandInfo \<Rightarrow> nat \<Rightarrow> memory \<Rightarrow> bool \<times> memory \<times> event list" where
  "readMBACommand dev address cmdInfo bufferSize m =
     (let warn = (if bufferSize > SOFTWAREWIRE_BUFSIZE
                  then [Print (warning_sign @ ''  Warning: bufferSize exceeds Wire buffer max (''),
                        PrintDec SOFTWAREWIRE_BUFSIZE] @ println '' bytes).''
                  else []);
          tx = [WireBegin address, WireWrite MANUFACTURER_BLOCK_ACCESS_COMMAND, WireEnd False];
          result = readResult dev
      in if result \<noteq> 0 then (False, m, warn @ tx @ printMBACommandError result)
         else
          (let quantity = (word_of_nat bufferSize :: u8);
               rq = [WireRequest address quantity];
               wr = wire_requestFrom dev quantity
           in if wire_available wr < 3
              then (False, m, warn @ tx @ rq @ println ''No data available to read'')
              else
               (case wire_read wr of (len, wr1) \<Rightarrow>
                 (case readMBACommand_wait len 0 wr1 of (ready, wr2, polls) \<Rightarrow>
                   if \<not> ready then (False, m, warn @ tx @ rq @ polls)
                   else
                    (let advice =
                           (if unat len > bufferSize
                            then [Print (warning_sign @ ''  Warning: Block length (''),
                                  PrintDec (unat len),
                                  Print '' bytes) exceeds buffer limit ('',
                                  PrintDec bufferSize] @
                                 println '' bytes). Truncation may occur.''
                            else [Print ''Response length: '', PrintDec (unat len)] @
                                 println '' bytes'');
                         available_bytes = wire_available wr2
                     in (case readMBACommand_copy 0 available_bytes wr2 m of (wr3, m1) \<Rightarrow>
                          (True,
                           reverseBufferEndian (unat len) m1,
                           warn @ tx @ rq @ polls @ advice @
                           printBuffer (cells m1) (min available_bytes (unat len))
                             (displayFormat cmdInfo))))))))"

section \<open>Command runner (bqcmd.cpp)\<close>

text \<open>
  \<^verbatim>\<open>if(cmdInfo->access != "W")\<close> compares two pointers: the address stored in the
  catalog entry and the address of the literal in the runner. Both literals stand in one
  translation unit; whether literals with the same text are one object is left to the
  toolchain. \<open>pooled\<close> says that it stores them once (as the compiler of the platform
  does); otherwise every literal is an object of its own and no two addresses agree.
\<close>

definition same_literal :: "bool \<Rightarrow> string \<Rightarrow> string \<Rightarrow> bool" where
  "same_literal pooled a b = (pooled \<and> a = b)"

text \<open>
  The response buffer is the local array \<open>uint8_t buffer[SOFTWAREWIRE_BUFSIZE]\<close>: the
  memory \<open>m\<close> the runner starts from is whatever the stack holds there.
\<close>

definition runMBACommand ::
  "bool \<Rightarrow> device \<Rightarrow> u8 \<Rightarrow> string option \<Rightarrow> memory \<Rightarrow> bool \<times> memory \<times> event list" where
  "runMBACommand pooled dev address cmdName m =
     (case getMBACommandInfoByName cmdName of
        None \<Rightarrow>
          (False, m,
           Print ''Command not found: '' #
           println (case cmdName of None \<Rightarrow> [] | Some s \<Rightarrow> s) @ [Newline])
      | Some cmdInfo \<Rightarrow>
          (let start = Print ''Starting command '' # printMBACommandInfo cmdInfo in
           case sendMBACommand dev address cmdInfo of (sent, tx) \<Rightarrow>
             if \<not> sent
             then (False, m, start @ tx @ println ''Failed to send command.'' @ [Newline])
             else if \<not> same_literal pooled (access cmdInfo) ''W'' then
               (case readMBACommand dev address cmdInfo SOFTWAREWIRE_BUFSIZE m of
                  (received, m1, rx) \<Rightarrow>
                    if \<not> received
                    then (False, m1,
                          start @ tx @ rx @ println ''Failed to read command response'' @ [Newline])
                    else
                      (True, m1,
                       start @ tx @ rx @
                       (case bitfields cmdInfo of
                          None \<Rightarrow> []
                        | Some bs \<Rightarrow>
                            if bitfieldCount cmdInfo > 0
                            then printBitFields (cells m1) (SOFTWAREWIRE_BUFSIZE - 2) bs
                                   (bitfieldCount cmdInfo)
                            else []) @
                       [Newline, Delay 100]))
             else (True, m, start @ tx @ [Newline, Delay 100])))"

section \<open>Statements of the specification and test inputs\<close>

text \<open>
  The write frame as section 6 of the specification words it:
  \<open>[0x44][N][subcmd_LSB][subcmd_MSB][payload]\<close> with \<open>N = 2 + payloadLength\<close>.
\<close>

definition spec_write_frame :: "MBACommandInfo \<Rightarrow> u8 list" where
  "spec_write_frame c =
     [0x44,
      word_of_nat (2 + unat (dataLength c)),
      word_of_nat (unat (cmd c) mod 256),
      word_of_nat (unat (cmd c) div 256)] @
     take (unat (dataLength c)) (data c)"

text \<open>
  The byte index of a bit as the specification words it, on the integers:
  \<open>(schemaBitCount/8) - (i/8) - 1\<close>.
\<close>

definition spec_byteIndex :: "u8 \<Rightarrow> BitFieldInfo \<Rightarrow> int" where
  "spec_byteIndex bitfieldsCount b =
     int (unat bitfieldsCount div 8) - int (unat (bitIndex b) div 8) - 1"

text \<open>Two names differ only in case: they are different, and equal once in lower case.\<close>

definition toLower :: "char \<Rightarrow> char" where
  "toLower c =
     (if 65 \<le> (of_char c :: nat) \<and> (of_char c :: nat) \<le> 90
      then char_of ((of_char c :: nat) + 32) else c)"

definition differs_only_in_case :: "string \<Rightarrow> string \<Rightarrow> bool" where
  "differs_only_in_case a b = (a \<noteq> b \<and> map toLower a = map toLower b)"

text \<open>
  The serial console's share of a run, and the blank line at its end: an empty
  \<open>println\<close> right after a line end.
\<close>

fun is_serial :: "event \<Rightarrow> bool" where
  "is_serial (Print s) = True"
| "is_serial (PrintDec n) = True"
| "is_serial (PrintHex n) = True"
| "is_serial Newline = True"
| "is_serial e = False"

definition ends_with_blank_line :: "event list \<Rightarrow> bool" where
  "ends_with_blank_line es = suffix [Newline, Newline] (filter is_serial es)"

text \<open>
  Parts of what \<open>readMBACommand\<close> emits and stores, named for the statements below:
  the events up to the read request, the line about the declared length, and the memory
  after the copy loop has taken every readable byte.
\<close>

definition read_request :: "u8 \<Rightarrow> nat \<Rightarrow> event list" where
  "read_request address bufferSize =
     (if SOFTWAREWIRE_BUFSIZE < bufferSize
      then [Print (warning_sign @ ''  Warning: bufferSize exceeds Wire buffer max (''),
            PrintDec SOFTWAREWIRE_BUFSIZE, Print '' bytes).'', Newline]
      else []) @
     [WireBegin address, WireWrite 0x44, WireEnd False,
      WireRequest address (word_of_nat bufferSize)]"

definition length_advice :: "u8 \<Rightarrow> nat \<Rightarrow> event list" where
  "length_advice len bufferSize =
     (if bufferSize < unat len
      then [Print (warning_sign @ ''  Warning: Block length (''), PrintDec (unat len),
            Print '' bytes) exceeds buffer limit ('', PrintDec bufferSize,
            Print '' bytes). Truncation may occur.'', Newline]
      else [Print ''Response length: '', PrintDec (unat len), Print '' bytes'', Newline])"

definition copied :: "wire \<Rightarrow> memory \<Rightarrow> memory" where
  "copied wr m =
     \<lparr>cells = (\<lambda>k. if k < wire_available wr then rxBuf wr ! (rxGet wr + k) else cells m k),
      writes = writes m @ [0..<wire_available wr]\<rparr>"

text \<open>Memories: all bytes zero, and byte \<open>i\<close> holding \<open>i\<close> (modulo 256).\<close>

definition blank_memory :: memory where
  "blank_memory = \<lparr>cells = (\<lambda>i. 0), writes = []\<rparr>"

definition counting_memory :: memory where
  "counting_memory = \<lparr>cells = (\<lambda>i. word_of_nat i), writes = []\<rparr>"

text \<open>
  Devices: the exchange of the \<open>DeviceType\<close> scenario; a block that declares 40 bytes
  to a 32-byte request; a device that answers the read request with two bytes only; a
  device that acknowledges every transmission and has nothing to read.
\<close>

definition deviceType_reply :: device where
  "deviceType_reply =
     \<lparr>sendResult = 0, readResult = 0, response = [0x02, 0x01, 0x00, 0x0A, 0x0B], late = []\<rparr>"

definition oversize_reply :: device where
  "oversize_reply =
     \<lparr>sendResult = 0, readResult = 0,
      response = [0x28, 0x50, 0x00, 1, 2, 3, 4, 5, 6, 7, 8, 9, 10, 11, 12, 13, 14, 15, 16,
                  17, 18, 19, 20, 21, 22, 23, 24, 25, 26, 27, 28, 29],
      late = []\<rparr>"

definition short_reply :: device where
  "short_reply = \<lparr>sendResult = 0, readResult = 0, response = [0x02, 0x01], late = []\<rparr>"

definition silent_device :: device where
  "silent_device = \<lparr>sendResult = 0, readResult = 0, response = [], late = []\<rparr>"



section \<open>The byte-order reversal\<close>

lemma cells_reverse_loop:
  "cells (reverseBufferEndian_loop i n m) k =
     (if i \<le> k \<and> k < n - i then cells m (n - 1 - k) else cells m k)"
proof (induction i n m arbitrary: k rule: reverseBufferEndian_loop.induct)
  case (1 i n m)
  show ?case
  proof (cases "i < n div 2")
    case True
    have step: "reverseBufferEndian_loop i n m =
        reverseBufferEndian_loop (Suc i) n
          (poke (n - 1 - i) (cells m i) (poke i (cells m (n - 1 - i)) m))"
      using True by (subst reverseBufferEndian_loop.simps) (simp add: Let_def)
    from True have lt: "i < n - 1 - i" by arith
    show ?thesis
      unfolding step
      using True lt
      by (subst "1.IH" [OF True refl refl refl]) (auto simp: poke_def)
  next
    case False
    have stop: "reverseBufferEndian_loop i n m = m"
      using False by (subst reverseBufferEndian_loop.simps) simp
    have "cells m (n - 1 - k) = cells m k" if "i \<le> k" "k < n - i"
    proof -
      from False that have "k = n - 1 - k" by arith
      then show ?thesis by simp
    qed
    then show ?thesis unfolding stop by simp
  qed
qed

lemma writes_reverse_loop:
  "writes (reverseBufferEndian_loop i n m) =
     writes m @ concat (map (\<lambda>j. [j, n - 1 - j]) [i..<n div 2])"
proof (induction i n m rule: reverseBufferEndian_loop.induct)
  case (1 i n m)
  show ?case
  proof (cases "i < n div 2")
    case True
    have step: "reverseBufferEndian_loop i n m =
        reverseBufferEndian_loop (Suc i) n
          (poke (n - 1 - i) (cells m i) (poke i (cells m (n - 1 - i)) m))"
      using True by (subst reverseBufferEndian_loop.simps) (simp add: Let_def)
    show ?thesis
      unfolding step
      using True
      by (subst "1.IH" [OF True refl refl refl]) (simp add: poke_def upt_conv_Cons)
  next
    case False
    then show ?thesis
      by (subst reverseBufferEndian_loop.simps) simp
  qed
qed

lemma cells_reverseBufferEndian:
  "cells (reverseBufferEndian n m) k = (if k < n then cells m (n - 1 - k) else cells m k)"
  by (simp add: reverseBufferEndian_def cells_reverse_loop)

lemma writes_reverseBufferEndian:
  "writes (reverseBufferEndian n m) = writes m @ concat (map (\<lambda>j. [j, n - 1 - j]) [0..<n div 2])"
  by (simp add: reverseBufferEndian_def writes_reverse_loop)

text \<open>
  C8. For every memory and every length, reversing twice restores every byte; when the
  length is odd, the reversal leaves the middle byte as it was and never stores to it.
\<close>

theorem reverseBufferEndian_involution:
  "cells (reverseBufferEndian n (reverseBufferEndian n m)) = cells m \<and>
   (odd n \<longrightarrow>
      cells (reverseBufferEndian n m) (n div 2) = cells m (n div 2) \<and>
      n div 2 \<notin> set (drop (length (writes m)) (writes (reverseBufferEndian n m))))"
proof (intro conjI impI)
  show "cells (reverseBufferEndian n (reverseBufferEndian n m)) = cells m"
    by (rule ext) (auto simp: cells_reverseBufferEndian)
next
  assume "odd n"
  then have "n - 1 - n div 2 = n div 2" and "n div 2 < n"
    by (auto elim!: oddE)
  then show "cells (reverseBufferEndian n m) (n div 2) = cells m (n div 2)"
    by (simp add: cells_reverseBufferEndian)
next
  assume "odd n"
  then obtain q where n: "n = 2 * q + 1"
    by (auto elim: oddE)
  have "k \<noteq> n div 2" if "k \<in> set (concat (map (\<lambda>j. [j, n - 1 - j]) [0..<n div 2]))" for k
  proof -
    from that obtain j where "j < n div 2" and "k = j \<or> k = n - 1 - j"
      by auto
    with n show ?thesis by auto
  qed
  then show "n div 2 \<notin> set (drop (length (writes m)) (writes (reverseBufferEndian n m)))"
    unfolding writes_reverseBufferEndian by auto
qed

theorem reverseBufferEndian_involution_witness:
  "odd (5 :: nat) \<and>
   map (cells (reverseBufferEndian 5 counting_memory)) [0..<6] = [4, 3, 2, 1, 0, 5] \<and>
   cells (reverseBufferEndian 5 counting_memory) (5 div 2) = cells counting_memory (5 div 2) \<and>
   writes (reverseBufferEndian 5 counting_memory) = [0, 4, 1, 3]"
  using reverseBufferEndian_involution [of 5 counting_memory]
  by (simp add: reverseBufferEndian_def reverseBufferEndian_loop.simps poke_def counting_memory_def
      upt_conv_Cons)

section \<open>Catalog lookup\<close>

lemma lookup_loop_find:
  "map_option (\<lambda>i. MBACommandsInfo ! i) (getMBACommandInfoByName_loop i s) =
     find (\<lambda>c. name c = s) (drop i MBACommandsInfo)"
proof (induction i s rule: getMBACommandInfoByName_loop.induct)
  case (1 i s)
  show ?case
  proof (cases "i < length MBACommandsInfo")
    case True
    then have d: "drop i MBACommandsInfo = MBACommandsInfo ! i # drop (Suc i) MBACommandsInfo"
      by (simp add: Cons_nth_drop_Suc)
    show ?thesis
      using True "1.IH"
      by (subst getMBACommandInfoByName_loop.simps) (simp add: d)
  next
    case False
    then show ?thesis
      by (subst getMBACommandInfoByName_loop.simps) simp
  qed
qed

lemma lookup_find:
  "getMBACommandInfoByName (Some s) = find (\<lambda>c. name c = s) MBACommandsInfo"
  using lookup_loop_find [of 0 s] by (simp add: getMBACommandInfoByName_def)

lemma lookup_Some_name:
  assumes "getMBACommandInfoByName nm = Some c"
  shows "nm = Some (name c) \<and> c \<in> set MBACommandsInfo"
proof (cases nm)
  case None
  with assms show ?thesis by (simp add: getMBACommandInfoByName_def)
next
  case (Some s)
  with assms have "find (\<lambda>c. name c = s) MBACommandsInfo = Some c"
    by (simp add: lookup_find)
  then obtain i where "i < length MBACommandsInfo" "name (MBACommandsInfo ! i) = s"
      "c = MBACommandsInfo ! i"
    unfolding find_Some_iff by blast
  with Some show ?thesis by auto
qed

lemma names_distinct: "distinct (map name MBACommandsInfo)"
  by (simp add: MBACommandsInfo_def)

lemma folded_names_distinct:
  "distinct (map (\<lambda>c. map toLower (name c)) MBACommandsInfo)"
  by (simp add: MBACommandsInfo_def toLower_def)

lemma lookup_own_name:
  assumes "c \<in> set MBACommandsInfo"
  shows "getMBACommandInfoByName (Some (name c)) = Some c"
proof -
  from assms have "find (\<lambda>d. name d = name c) MBACommandsInfo \<noteq> None"
    by (auto simp: find_None_iff)
  then obtain d where d: "find (\<lambda>d. name d = name c) MBACommandsInfo = Some d"
    by auto
  then have "getMBACommandInfoByName (Some (name c)) = Some d"
    by (simp add: lookup_find)
  from lookup_Some_name [OF this] have "name d = name c" "d \<in> set MBACommandsInfo"
    by auto
  with assms names_distinct have "d = c"
    by (auto simp: distinct_map dest: inj_onD)
  with d show ?thesis by (simp add: lookup_find)
qed

text \<open>
  C10. The lookup of an absent name finds nothing; the lookup of a text returns the first
  catalog entry whose name equals the text character for character, and nothing when there
  is none; a text that differs from a catalog name only in case is not found. The lookup is
  a function of its argument alone.
\<close>

theorem getMBACommandInfoByName_exact:
  "getMBACommandInfoByName None = None \<and>
   (\<forall>s. getMBACommandInfoByName (Some s) = find (\<lambda>c. name c = s) MBACommandsInfo) \<and>
   (\<forall>c\<in>set MBACommandsInfo. \<forall>s.
      differs_only_in_case s (name c) \<longrightarrow> getMBACommandInfoByName (Some s) = None)"
proof (intro conjI allI ballI impI)
  show "getMBACommandInfoByName None = None"
    by (simp add: getMBACommandInfoByName_def)
next
  fix s
  show "getMBACommandInfoByName (Some s) = find (\<lambda>c. name c = s) MBACommandsInfo"
    by (rule lookup_find)
next
  fix c s
  assume c: "c \<in> set MBACommandsInfo" and s: "differs_only_in_case s (name c)"
  show "getMBACommandInfoByName (Some s) = None"
  proof (rule ccontr)
    assume "getMBACommandInfoByName (Some s) \<noteq> None"
    then obtain d where "getMBACommandInfoByName (Some s) = Some d"
      by auto
    from lookup_Some_name [OF this] have d: "name d = s" "d \<in> set MBACommandsInfo"
      by auto
    with s have "map toLower (name d) = map toLower (name c)"
      by (simp add: differs_only_in_case_def)
    with c d folded_names_distinct have "d = c"
      by (auto simp: distinct_map dest: inj_onD)
    with d s show False
      by (simp add: differs_only_in_case_def)
  qed
qed

theorem getMBACommandInfoByName_exact_witness:
  "MBACommandsInfo ! 0 \<in> set MBACommandsInfo \<and>
   name (MBACommandsInfo ! 0) = ''DeviceType'' \<and>
   differs_only_in_case ''devicetype'' (name (MBACommandsInfo ! 0)) \<and>
   getMBACommandInfoByName (Some ''devicetype'') = None \<and>
   map_option cmd (getMBACommandInfoByName (Some ''DeviceType'')) = Some 0x0001"
proof -
  have m: "MBACommandsInfo ! 0 \<in> set MBACommandsInfo"
    by (simp add: MBACommandsInfo_def)
  have n: "name (MBACommandsInfo ! 0) = ''DeviceType''"
    by (simp add: MBACommandsInfo_def)
  have d: "differs_only_in_case ''devicetype'' (name (MBACommandsInfo ! 0))"
    unfolding n by code_simp
  have f: "map_option cmd (find (\<lambda>c. name c = ''DeviceType'') MBACommandsInfo) = Some 0x0001"
    by (simp add: MBACommandsInfo_def)
  from getMBACommandInfoByName_exact m n d f show ?thesis
    by metis
qed

section \<open>The catalog and its schemas\<close>

lemma catalog_payloads:
  "\<forall>c\<in>set MBACommandsInfo. unat (dataLength c) \<le> 8 \<and> length (data c) = 8"
  by (simp add: MBACommandsInfo_def)

lemma schema_lengths:
  "length safetyAlertBits = 32"
  "length safetyStatusBits = 32"
  "length pfAlertBits = 32"
  "length pfStatusBits = 32"
  "length operationStatusBits = 32"
  "length ManufacturingStatusBits = 16"
  by (simp_all add: safetyAlertBits_def safetyStatusBits_def pfAlertBits_def
      pfStatusBits_def operationStatusBits_def ManufacturingStatusBits_def)

lemma catalog_schemas:
  "\<forall>c\<in>set MBACommandsInfo. \<forall>bs. bitfields c = Some bs \<longrightarrow>
     bs \<in> {safetyAlertBits, safetyStatusBits, pfAlertBits, pfStatusBits,
            operationStatusBits, ManufacturingStatusBits} \<and>
     unat (bitfieldCount c) = length bs"
  by (auto simp: MBACommandsInfo_def schema_lengths)

lemma schema_indices:
  "distinct (map bitIndex safetyAlertBits)"
  "distinct (map bitIndex safetyStatusBits)"
  "distinct (map bitIndex pfAlertBits)"
  "distinct (map bitIndex pfStatusBits)"
  "distinct (map bitIndex operationStatusBits)"
  "distinct (map bitIndex ManufacturingStatusBits)"
  by (simp_all add: safetyAlertBits_def safetyStatusBits_def pfAlertBits_def
      pfStatusBits_def operationStatusBits_def ManufacturingStatusBits_def)

lemma schema_descriptions:
  "\<forall>b\<in>set safetyAlertBits. description b \<noteq> None"
  "\<forall>b\<in>set safetyStatusBits. description b \<noteq> None"
  "\<forall>b\<in>set pfAlertBits. description b \<noteq> None"
  "\<forall>b\<in>set pfStatusBits. description b \<noteq> None"
  "\<forall>b\<in>set operationStatusBits. description b \<noteq> None"
  "\<forall>b\<in>set ManufacturingStatusBits. description b \<noteq> None"
  by (simp_all add: safetyAlertBits_def safetyStatusBits_def pfAlertBits_def
      pfStatusBits_def operationStatusBits_def ManufacturingStatusBits_def)

text \<open>
  C9. The schemas that catalog entries refer to are the six tables, in this order; in each
  of them no bit index occurs twice, and every entry that refers to a schema declares as its
  count the number of descriptors of that schema.
\<close>

theorem catalog_schemas_wellformed:
  "[bs. c \<leftarrow> MBACommandsInfo, Some bs \<leftarrow> [bitfields c]] =
     [safetyAlertBits, safetyStatusBits, pfAlertBits, pfStatusBits, operationStatusBits,
      ManufacturingStatusBits] \<and>
   (\<forall>c\<in>set MBACommandsInfo. \<forall>bs. bitfields c = Some bs \<longrightarrow>
      distinct (map bitIndex bs) \<and> unat (bitfieldCount c) = length bs)"
proof (intro conjI ballI allI impI)
  show "[bs. c \<leftarrow> MBACommandsInfo, Some bs \<leftarrow> [bitfields c]] =
     [safetyAlertBits, safetyStatusBits, pfAlertBits, pfStatusBits, operationStatusBits,
      ManufacturingStatusBits]"
    by (simp add: MBACommandsInfo_def)
next
  fix c bs
  assume "c \<in> set MBACommandsInfo" "bitfields c = Some bs"
  with catalog_schemas have "bs \<in> {safetyAlertBits, safetyStatusBits, pfAlertBits, pfStatusBits,
            operationStatusBits, ManufacturingStatusBits}"
    by blast
  with schema_indices show "distinct (map bitIndex bs)"
    by auto
next
  fix c bs
  assume "c \<in> set MBACommandsInfo" "bitfields c = Some bs"
  with catalog_schemas show "unat (bitfieldCount c) = length bs"
    by blast
qed

theorem catalog_schemas_wellformed_witness:
  "MBACommandsInfo ! 14 \<in> set MBACommandsInfo \<and>
   name (MBACommandsInfo ! 14) = ''ManufacturingStatus'' \<and>
   bitfields (MBACommandsInfo ! 14) = Some ManufacturingStatusBits \<and>
   distinct (map bitIndex ManufacturingStatusBits) \<and>
   unat (bitfieldCount (MBACommandsInfo ! 14)) = length ManufacturingStatusBits \<and>
   length ManufacturingStatusBits = 16"
proof -
  have m: "MBACommandsInfo ! 14 \<in> set MBACommandsInfo"
    by (simp add: MBACommandsInfo_def)
  have n: "name (MBACommandsInfo ! 14) = ''ManufacturingStatus''"
    by (simp add: MBACommandsInfo_def)
  have b: "bitfields (MBACommandsInfo ! 14) = Some ManufacturingStatusBits"
    by (simp add: MBACommandsInfo_def)
  have l: "length ManufacturingStatusBits = 16"
    by (simp add: ManufacturingStatusBits_def)
  from catalog_schemas_wellformed m b
  have "distinct (map bitIndex ManufacturingStatusBits) \<and>
        unat (bitfieldCount (MBACommandsInfo ! 14)) = length ManufacturingStatusBits"
    by blast
  with m n b l show ?thesis by simp
qed

section \<open>The write frame\<close>

lemma lowByte_mod: "unat (lowByte w) = unat w mod 256"
proof -
  have "(0xFF :: u16) = mask 8"
    by (simp add: mask_eq_exp_minus_1)
  then have "lowByte w = ucast (take_bit 8 w)"
    by (simp add: lowByte_def take_bit_eq_mask)
  then show ?thesis
    by (simp add: unsigned_ucast_eq unsigned_take_bit_eq take_bit_eq_mod unat_mod_distrib)
qed

lemma highByte_div: "unat (highByte w) = unat w div 256"
proof -
  have "unat w < 65536"
    using unsigned_less [of w] by simp
  then have "unat w div 256 < 256"
    by arith
  then show ?thesis
    by (simp add: highByte_def unsigned_ucast_eq unat_drop_bit_eq take_bit_eq_mod drop_bit_eq_div
        unat_div_distrib)
qed

lemma map_nth_take: "n \<le> length xs \<Longrightarrow> map (\<lambda>i. xs ! i) [0..<n] = take n xs"
  by (auto simp: list_eq_iff_nth_eq)

lemma sendMBACommand_events:
  "snd (sendMBACommand dev address c) =
     [WireBegin address] @
     map WireWrite ([0x44, 2 + dataLength c, lowByte (cmd c), highByte (cmd c)] @
                    map (\<lambda>i. data c ! i) [0..<unat (dataLength c)]) @
     [WireEnd True, Delay 20] @
     (if sendResult dev = 0 then [] else printMBACommandError (sendResult dev))"
  by (simp add: sendMBACommand_def Let_def MANUFACTURER_BLOCK_ACCESS_COMMAND_def comp_def)

lemma sendMBACommand_result: "fst (sendMBACommand dev address c) = (sendResult dev = 0)"
  by (simp add: sendMBACommand_def Let_def)

lemma spec_write_frame_eq:
  assumes "unat (dataLength c) \<le> length (data c)"
  shows "spec_write_frame c =
     [0x44, 2 + dataLength c, lowByte (cmd c), highByte (cmd c)] @
     map (\<lambda>i. data c ! i) [0..<unat (dataLength c)]"
proof -
  have "word_of_nat (unat (cmd c) mod 256) = lowByte (cmd c)"
    using arg_cong [OF lowByte_mod [of "cmd c"], of "word_of_nat :: nat \<Rightarrow> u8"] by simp
  moreover have "word_of_nat (unat (cmd c) div 256) = highByte (cmd c)"
    using arg_cong [OF highByte_div [of "cmd c"], of "word_of_nat :: nat \<Rightarrow> u8"] by simp
  ultimately show ?thesis
    using assms by (simp add: spec_write_frame_def map_nth_take)
qed

text \<open>
  C7. Every catalog entry has a payload of at most 8 bytes, and what the send operation
  writes between the start and the end of its transaction is the frame of the
  specification: \<open>0x44\<close>, the length byte \<open>2 + payloadLength\<close>, the sub-command low byte
  first, and the payload bytes in catalog order.
\<close>

theorem sendMBACommand_frame:
  "\<forall>c\<in>set MBACommandsInfo.
     unat (dataLength c) \<le> 8 \<and>
     snd (sendMBACommand dev address c) =
       [WireBegin address] @ map WireWrite (spec_write_frame c) @ [WireEnd True, Delay 20] @
       (if sendResult dev = 0 then [] else printMBACommandError (sendResult dev)) \<and>
     unat (spec_write_frame c ! 1) = 2 + unat (dataLength c) \<and>
     unat (cmd c) = unat (spec_write_frame c ! 2) + 256 * unat (spec_write_frame c ! 3) \<and>
     drop 4 (spec_write_frame c) = take (unat (dataLength c)) (data c)"
proof
  fix c
  assume "c \<in> set MBACommandsInfo"
  with catalog_payloads have len: "unat (dataLength c) \<le> 8" "length (data c) = 8"
    by auto
  then have frame: "spec_write_frame c =
     [0x44, 2 + dataLength c, lowByte (cmd c), highByte (cmd c)] @
     map (\<lambda>i. data c ! i) [0..<unat (dataLength c)]"
    by (intro spec_write_frame_eq) simp
  have n: "unat (spec_write_frame c ! 1) = 2 + unat (dataLength c)"
    using len by (simp add: spec_write_frame_def unat_word_ariths)
  have w: "unat (cmd c) = unat (spec_write_frame c ! 2) + 256 * unat (spec_write_frame c ! 3)"
    unfolding frame by (simp add: lowByte_mod highByte_div)
  have p: "drop 4 (spec_write_frame c) = take (unat (dataLength c)) (data c)"
    by (simp add: spec_write_frame_def)
  show "unat (dataLength c) \<le> 8 \<and>
     snd (sendMBACommand dev address c) =
       [WireBegin address] @ map WireWrite (spec_write_frame c) @ [WireEnd True, Delay 20] @
       (if sendResult dev = 0 then [] else printMBACommandError (sendResult dev)) \<and>
     unat (spec_write_frame c ! 1) = 2 + unat (dataLength c) \<and>
     unat (cmd c) = unat (spec_write_frame c ! 2) + 256 * unat (spec_write_frame c ! 3) \<and>
     drop 4 (spec_write_frame c) = take (unat (dataLength c)) (data c)"
    using len n w p unfolding sendMBACommand_events frame by simp
qed

theorem sendMBACommand_frame_witness:
  "MBACommandsInfo ! 18 \<in> set MBACommandsInfo \<and>
   name (MBACommandsInfo ! 18) = ''ClearPF2'' \<and>
   snd (sendMBACommand deviceType_reply 0x0B (MBACommandsInfo ! 18)) =
     [WireBegin 0x0B, WireWrite 0x44, WireWrite 0x06, WireWrite 0x62, WireWrite 0x40,
      WireWrite 0x01, WireWrite 0x23, WireWrite 0x45, WireWrite 0x67, WireEnd True, Delay 20]"
proof -
  have m: "MBACommandsInfo ! 18 \<in> set MBACommandsInfo"
    by (simp add: MBACommandsInfo_def)
  have n: "name (MBACommandsInfo ! 18) = ''ClearPF2''"
    by (simp add: MBACommandsInfo_def)
  have f: "spec_write_frame (MBACommandsInfo ! 18) = [0x44, 0x06, 0x62, 0x40, 0x01, 0x23, 0x45, 0x67]"
    by (simp add: MBACommandsInfo_def spec_write_frame_def)
  have r: "sendResult deviceType_reply = 0"
    by (simp add: deviceType_reply_def)
  from sendMBACommand_frame [where dev = deviceType_reply and address = "0x0B"] m
  have "snd (sendMBACommand deviceType_reply 0x0B (MBACommandsInfo ! 18)) =
       [WireBegin 0x0B] @ map WireWrite (spec_write_frame (MBACommandsInfo ! 18)) @
       [WireEnd True, Delay 20] @
       (if sendResult deviceType_reply = 0 then []
        else printMBACommandError (sendResult deviceType_reply))"
    by blast
  with m n show ?thesis
    unfolding f r by simp
qed

section \<open>The bit-field decoder\<close>

lemma u8_bound: "unat x < 256" for x :: u8
proof -
  have "unat x < 2 ^ LENGTH(8)"
    by (rule unsigned_less)
  then show ?thesis by simp
qed

lemma spec_byteIndex_range: "- 32 \<le> spec_byteIndex c b \<and> spec_byteIndex c b < 31"
  using u8_bound [of c] u8_bound [of "bitIndex b"]
  by (simp add: spec_byteIndex_def) arith

lemma unat_word_of_int_u8: "unat (word_of_int i :: u8) = nat (i mod 256)"
  by (simp add: unat_eq_nat_uint uint_word_of_int)

lemma unat_byteIndex:
  "unat (byteIndex c b) =
     nat (if spec_byteIndex c b < 0 then spec_byteIndex c b + 256 else spec_byteIndex c b)"
proof -
  define i where "i = spec_byteIndex c b"
  have r: "- 32 \<le> i" "i < 31"
    using spec_byteIndex_range [of c b] by (simp_all add: i_def)
  have w: "byteIndex c b = word_of_int i"
    by (simp only: byteIndex_def spec_byteIndex_def i_def)
  have "i mod 256 = (if i < 0 then i + 256 else i)"
  proof (cases "i < 0")
    case True
    with r have "(i + 256) mod 256 = i + 256"
      by (intro mod_pos_pos_trivial) auto
    with True show ?thesis by simp
  next
    case False
    with r show ?thesis by simp
  qed
  then show ?thesis
    unfolding w unat_word_of_int_u8 i_def by simp
qed

lemma extracted_bit: "(drop_bit n x AND 1 \<noteq> 0) = bit x n" for x :: u8
  by (simp add: and_one_eq bit_iff_odd_drop_bit mod_2_eq_odd)

lemma extracted_bit0: "(x AND 1 \<noteq> 0) = bit x 0" for x :: u8
  using extracted_bit [of 0 x] by simp

lemma unat_bitInByte: "unat (bitInByte b) = unat (bitIndex b) mod 8"
  by (simp add: bitInByte_def unat_mod_distrib)

text \<open>
  What the decoder computes, for every buffer, buffer length, declared count and
  descriptor: with \<open>i\<close> the index \<open>(c/8) - (i/8) - 1\<close> on the integers, the byte it
  tests is byte \<open>i\<close> when \<open>i\<close> is not negative and byte \<open>i + 256\<close> when it is.
\<close>

lemma bitSet_characterisation:
  "bitSet buffer bufferSize c b =
     (let i = spec_byteIndex c b;
          k = (if i < 0 then i + 256 else i)
      in k < int bufferSize \<and> bit (buffer (nat k)) (unat (bitIndex b) mod 8))"
proof -
  have r: "- 32 \<le> spec_byteIndex c b"
    using spec_byteIndex_range [of c b] by simp
  then show ?thesis
    by (auto simp: bitSet_def Let_def unat_byteIndex extracted_bit unat_bitInByte)
qed


text \<open>
  The rule of the specification (the bit of byte \<open>(c/8) - (i/8) - 1\<close> when that index
  lies in the buffer, unset otherwise) is what the decoder does whenever the index is not
  negative, and for every index when the buffer has at most 224 bytes, as the runner's
  30-byte window has.
\<close>

lemma bitSet_in_range:
  assumes "0 \<le> spec_byteIndex c b \<or> bufferSize \<le> 224"
  shows "bitSet buffer bufferSize c b =
     (0 \<le> spec_byteIndex c b \<and> spec_byteIndex c b < int bufferSize \<and>
      bit (buffer (nat (spec_byteIndex c b))) (unat (bitIndex b) mod 8))"
proof (cases "0 \<le> spec_byteIndex c b")
  case True
  then show ?thesis
    by (simp add: bitSet_characterisation Let_def)
next
  case False
  with assms have "bufferSize \<le> 224"
    by simp
  moreover have "- 32 \<le> spec_byteIndex c b"
    using spec_byteIndex_range [of c b] by simp
  ultimately show ?thesis
    using False by (simp add: bitSet_characterisation Let_def)
qed

lemma bitSet_32bit_schema:
  "bitSet buffer 4 32 (b\<lparr>bitIndex := 0\<rparr>) = bit (buffer 3) 0"
  "bitSet buffer 4 32 (b\<lparr>bitIndex := 31\<rparr>) = bit (buffer 0) 7"
  by (simp_all add: bitSet_characterisation spec_byteIndex_def)

lemma catalog_indices_in_range:
  "\<forall>c\<in>set MBACommandsInfo. \<forall>bs. bitfields c = Some bs \<longrightarrow>
     (\<forall>b\<in>set bs. 0 \<le> spec_byteIndex (bitfieldCount c) b)"
proof (intro ballI allI impI)
  fix c bs b
  assume c: "c \<in> set MBACommandsInfo" "bitfields c = Some bs" and b: "b \<in> set bs"
  have s32: "\<forall>b\<in>set bs. unat (bitIndex b) < 32" if "bs \<in> {safetyAlertBits, safetyStatusBits,
      pfAlertBits, pfStatusBits, operationStatusBits}" for bs
    using that
    by (auto simp: safetyAlertBits_def safetyStatusBits_def pfAlertBits_def pfStatusBits_def
        operationStatusBits_def)
  have s16: "\<forall>b\<in>set ManufacturingStatusBits. unat (bitIndex b) < 16"
    by (simp add: ManufacturingStatusBits_def)
  from c catalog_schemas have mem: "bs \<in> {safetyAlertBits, safetyStatusBits, pfAlertBits,
      pfStatusBits, operationStatusBits, ManufacturingStatusBits}"
    and len: "unat (bitfieldCount c) = length bs"
    by blast+
  show "0 \<le> spec_byteIndex (bitfieldCount c) b"
  proof (cases "bs = ManufacturingStatusBits")
    case True
    with b s16 have "unat (bitIndex b) < 16"
      by blast
    moreover from True len have "unat (bitfieldCount c) = 16"
      by (simp add: schema_lengths)
    ultimately show ?thesis
      by (simp add: spec_byteIndex_def)
  next
    case False
    with mem have m5: "bs \<in> {safetyAlertBits, safetyStatusBits, pfAlertBits, pfStatusBits,
        operationStatusBits}"
      by blast
    with b s32 have "unat (bitIndex b) < 32"
      by blast
    moreover from m5 len have "unat (bitfieldCount c) = 32"
      by (auto simp: schema_lengths)
    ultimately show ?thesis
      by (simp add: spec_byteIndex_def)
  qed
qed


section \<open>The receive operation\<close>

lemma readMBACommand_insufficient:
  assumes "readResult dev = 0"
    and "wire_available (wire_requestFrom dev (word_of_nat bufferSize)) < 3"
  shows "readMBACommand dev address cmdInfo bufferSize m =
     (False, m, read_request address bufferSize @ [Print ''No data available to read'', Newline])"
  using assms
  by (simp add: readMBACommand_def Let_def println_def read_request_def
      MANUFACTURER_BLOCK_ACCESS_COMMAND_def)

text \<open>
  C6. When the transmission that opens the read succeeds and fewer than 3 bytes are
  readable right after the read request, the receive operation returns false with the
  no-data message as its last output; it has not waited (no event of the polling loop) and
  has stored nothing: the memory is the one it was given.
\<close>

theorem readMBACommand_no_data:
  assumes "readResult dev = 0"
    and "wire_available (wire_requestFrom dev (word_of_nat bufferSize)) < 3"
  shows "readMBACommand dev address cmdInfo bufferSize m =
     (False, m,
      (if SOFTWAREWIRE_BUFSIZE < bufferSize
       then [Print (warning_sign @ ''  Warning: bufferSize exceeds Wire buffer max (''),
             PrintDec SOFTWAREWIRE_BUFSIZE, Print '' bytes).'', Newline]
       else []) @
      [WireBegin address, WireWrite 0x44, WireEnd False,
       WireRequest address (word_of_nat bufferSize),
       Print ''No data available to read'', Newline])"
  unfolding readMBACommand_insufficient [OF assms]
  by (simp add: read_request_def)

theorem readMBACommand_no_data_witness:
  "readResult short_reply = 0 \<and>
   wire_available (wire_requestFrom short_reply (word_of_nat 32)) = 2 \<and>
   readMBACommand short_reply 0x0B (MBACommandsInfo ! 0) 32 blank_memory =
     (False, blank_memory,
      [WireBegin 0x0B, WireWrite 0x44, WireEnd False, WireRequest 0x0B 32,
       Print ''No data available to read'', Newline])"
proof -
  have r: "readResult short_reply = 0"
    by (simp add: short_reply_def)
  have a: "wire_available (wire_requestFrom short_reply (word_of_nat 32)) = 2"
    by (simp add: short_reply_def wire_available_def wire_requestFrom_def SOFTWAREWIRE_BUFSIZE_def)
  then have lt: "wire_available (wire_requestFrom short_reply (word_of_nat 32)) < 3"
    by simp
  from readMBACommand_no_data [OF r lt, of "0x0B" "MBACommandsInfo ! 0" blank_memory] r a
  show ?thesis
    by (simp add: SOFTWAREWIRE_BUFSIZE_def)
qed

section \<open>The receive operation: its loops\<close>

lemma readMBACommand_copy_result:
  "n - i \<le> wire_available wr \<Longrightarrow>
   readMBACommand_copy i n wr m =
     (wr\<lparr>rxGet := rxGet wr + (n - i)\<rparr>,
      \<lparr>cells = (\<lambda>k. if i \<le> k \<and> k < n then rxBuf wr ! (rxGet wr + (k - i)) else cells m k),
       writes = writes m @ [i..<n]\<rparr>)"
proof (induction i n wr m rule: readMBACommand_copy.induct)
  case (1 i n wr m)
  show ?case
  proof (cases "i < n")
    case True
    with "1.prems" have g: "rxGet wr < length (rxBuf wr)"
      by (simp add: wire_available_def)
    then have rd: "wire_read wr = (rxBuf wr ! rxGet wr, wr\<lparr>rxGet := Suc (rxGet wr)\<rparr>)"
      by (simp add: wire_read_def)
    have pre: "n - Suc i \<le> wire_available (wr\<lparr>rxGet := Suc (rxGet wr)\<rparr>)"
      using True "1.prems" by (simp add: wire_available_def)
    have step: "readMBACommand_copy i n wr m =
        readMBACommand_copy (Suc i) n (wr\<lparr>rxGet := Suc (rxGet wr)\<rparr>) (poke i (rxBuf wr ! rxGet wr) m)"
      using True by (subst readMBACommand_copy.simps) (simp add: rd)
    show ?thesis
      unfolding step "1.IH" [OF True rd [symmetric] pre]
      using True by (auto simp: poke_def upt_conv_Cons fun_eq_iff Suc_diff_Suc)
  next
    case False
    then have "(\<lambda>k. if i \<le> k \<and> k < n then rxBuf wr ! (rxGet wr + (k - i)) else cells m k) = cells m"
      by (auto simp: fun_eq_iff)
    with False show ?thesis
      by (subst readMBACommand_copy.simps) simp
  qed
qed

lemma readMBACommand_copy_all:
  "readMBACommand_copy 0 (wire_available wr) wr m =
     (wr\<lparr>rxGet := rxGet wr + wire_available wr\<rparr>,
      \<lparr>cells = (\<lambda>k. if k < wire_available wr then rxBuf wr ! (rxGet wr + k) else cells m k),
       writes = writes m @ [0..<wire_available wr]\<rparr>)"
  using readMBACommand_copy_result [of "wire_available wr" 0 wr m]
  by (simp cong: if_cong)

lemma readMBACommand_copy_copied:
  "readMBACommand_copy 0 (wire_available wr) wr m =
     (wr\<lparr>rxGet := rxGet wr + wire_available wr\<rparr>, copied wr m)"
  by (simp add: readMBACommand_copy_all copied_def)

lemma readMBACommand_wait_events:
  "readMBACommand_wait len t wr = (ok, wr', es) \<Longrightarrow>
   \<exists>k. es = replicate k (Delay 10) @ (if ok then [] else timeout_message (wire_available wr'))"
proof (induction len t wr arbitrary: ok wr' es rule: readMBACommand_wait.induct)
  case (1 len t wr)
  show ?case
  proof (cases "wire_available wr < unat len \<and> wire_available wr < SOFTWAREWIRE_BUFSIZE - 1")
    case False
    with "1.prems" have "ok" "es = []"
      by (subst (asm) readMBACommand_wait.simps, auto)+
    then show ?thesis by simp
  next
    case busy: True
    show ?thesis
    proof (cases "10000 < t")
      case True
      with busy "1.prems" have "\<not> ok" "wr' = wr" "es = timeout_message (wire_available wr)"
        by (subst (asm) readMBACommand_wait.simps, auto)+
      then show ?thesis
        by (auto intro: exI [of _ 0])
    next
      case False
      obtain ok1 wr1 es1 where r: "readMBACommand_wait len (t + 10) (wire_arrive wr) = (ok1, wr1, es1)"
        by (cases "readMBACommand_wait len (t + 10) (wire_arrive wr)") auto
      with busy False "1.prems" have e: "ok = ok1" "wr' = wr1" "es = Delay 10 # es1"
        by (subst (asm) readMBACommand_wait.simps, auto)+
      from "1.IH" [OF busy False r] obtain k where
        "es1 = replicate k (Delay 10) @ (if ok1 then [] else timeout_message (wire_available wr1))"
        by blast
      with e show ?thesis
        by (auto intro: exI [of _ "Suc k"])
    qed
  qed
qed

lemma readMBACommand_wait_ready:
  "\<not> (wire_available wr < unat len \<and> wire_available wr < SOFTWAREWIRE_BUFSIZE - 1) \<Longrightarrow>
   readMBACommand_wait len t wr = (True, wr, [])"
  by (subst readMBACommand_wait.simps) auto


section \<open>The receive operation: its outcomes\<close>

lemma readMBACommand_received:
  assumes "readResult dev = 0"
    and "3 \<le> wire_available (wire_requestFrom dev (word_of_nat bufferSize))"
    and "wire_read (wire_requestFrom dev (word_of_nat bufferSize)) = (len, wr1)"
    and "readMBACommand_wait len 0 wr1 = (True, wr2, polls)"
  shows "readMBACommand dev address cmdInfo bufferSize m =
     (True,
      reverseBufferEndian (unat len) (copied wr2 m),
      read_request address bufferSize @ polls @ length_advice len bufferSize @
      printBuffer (cells (copied wr2 m)) (min (wire_available wr2) (unat len))
        (displayFormat cmdInfo))"
  using assms
  by (simp add: readMBACommand_def Let_def readMBACommand_copy_copied read_request_def
      length_advice_def println_def MANUFACTURER_BLOCK_ACCESS_COMMAND_def)

lemma memory_eqI: "cells a = cells b \<Longrightarrow> writes a = writes b \<Longrightarrow> a = b" for a b :: memory
  by (rule memory.equality) simp_all

section \<open>Two exchanges\<close>

lemma DeviceType_entry:
  "getMBACommandInfoByName (Some ''DeviceType'') = Some (MBACommandsInfo ! 0)"
  "cmd (MBACommandsInfo ! 0) = 0x0001"
  "dataLength (MBACommandsInfo ! 0) = 0"
  "name (MBACommandsInfo ! 0) = ''DeviceType''"
  "access (MBACommandsInfo ! 0) = ''R''"
  "displayFormat (MBACommandsInfo ! 0) = FORMAT_HEX"
  "bitfields (MBACommandsInfo ! 0) = None"
  by (simp_all add: lookup_find MBACommandsInfo_def)

lemma printBuffer_cong:
  assumes "\<And>k. k < n \<Longrightarrow> f k = g k"
  shows "printBuffer f n fmt = printBuffer g n fmt"
proof -
  have "map (\<lambda>i. h (f i)) [0..<n] = map (\<lambda>i. h (g i)) [0..<n]" for h :: "u8 \<Rightarrow> 'b"
    using assms by simp
  note eqs = this [of "\<lambda>x. Print ''0x'' # printHexByte x @ [Print '' '']"]
    this [of "\<lambda>x. [PrintDec (unat x), Print '' '']"]
    this [of "\<lambda>x. map (\<lambda>b. PrintDec (unat (drop_bit b x AND 1))) (rev [0..<8]) @ [Print '' '']"]
    this [of "\<lambda>x. if 32 \<le> x \<and> x \<le> 126 then Print [char_of (unat x)] else Print ''.''"]
  show ?thesis
    unfolding printBuffer_def eqs ..
qed

lemma deviceType_exchange:
  "readMBACommand deviceType_reply address cmdInfo 32 m =
     (True,
      \<lparr>cells = (\<lambda>k. if k < 4 then [0x00, 0x01, 0x0A, 0x0B] ! k else cells m k),
       writes = writes m @ [0, 1, 2, 3, 0, 1]\<rparr>,
      [WireBegin address, WireWrite 0x44, WireEnd False, WireRequest address 32,
       Print ''Response length: '', PrintDec 2, Print '' bytes'', Newline] @
      printBuffer (\<lambda>k. [0x01, 0x00, 0x0A, 0x0B] ! k) 2 (displayFormat cmdInfo))"
proof -
  define wr1 :: wire where
    "wr1 = \<lparr>rxBuf = [0x02, 0x01, 0x00, 0x0A, 0x0B], rxGet = 1, incoming = []\<rparr>"
  have rq: "wire_requestFrom deviceType_reply (word_of_nat 32) =
      \<lparr>rxBuf = [0x02, 0x01, 0x00, 0x0A, 0x0B], rxGet = 0, incoming = []\<rparr>"
    by (simp add: wire_requestFrom_def deviceType_reply_def SOFTWAREWIRE_BUFSIZE_def)
  have r: "readResult deviceType_reply = 0"
    by (simp add: deviceType_reply_def)
  have a: "3 \<le> wire_available (wire_requestFrom deviceType_reply (word_of_nat 32))"
    unfolding rq by (simp add: wire_available_def)
  have rd: "wire_read (wire_requestFrom deviceType_reply (word_of_nat 32)) = (2, wr1)"
    unfolding rq by (simp add: wire_read_def wr1_def)
  have av: "wire_available wr1 = 4"
    by (simp add: wire_available_def wr1_def)
  have w: "readMBACommand_wait 2 0 wr1 = (True, wr1, [])"
    by (rule readMBACommand_wait_ready) (simp add: av)
  have c: "cells (copied wr1 m) = (\<lambda>k. if k < 4 then [0x01, 0x00, 0x0A, 0x0B] ! k else cells m k)"
    unfolding copied_def av by (auto simp: wr1_def fun_eq_iff)
  have cw: "writes (copied wr1 m) = writes m @ [0, 1, 2, 3]"
    by (simp add: copied_def av upt_conv_Cons)
  have mem: "reverseBufferEndian (unat (2 :: u8)) (copied wr1 m) =
      \<lparr>cells = (\<lambda>k. if k < 4 then [0x00, 0x01, 0x0A, 0x0B] ! k else cells m k),
       writes = writes m @ [0, 1, 2, 3, 0, 1]\<rparr>"
  proof (rule memory_eqI)
    show "cells (reverseBufferEndian (unat (2 :: u8)) (copied wr1 m)) =
        cells \<lparr>cells = (\<lambda>k. if k < 4 then [0x00, 0x01, 0x0A, 0x0B] ! k else cells m k),
               writes = writes m @ [0, 1, 2, 3, 0, 1]\<rparr>"
      by (auto simp: fun_eq_iff cells_reverseBufferEndian c nth_Cons' less_Suc_eq_0_disj)
    show "writes (reverseBufferEndian (unat (2 :: u8)) (copied wr1 m)) =
        writes \<lparr>cells = (\<lambda>k. if k < 4 then [0x00, 0x01, 0x0A, 0x0B] ! k else cells m k),
                writes = writes m @ [0, 1, 2, 3, 0, 1]\<rparr>"
      by (simp add: writes_reverseBufferEndian cw)
  qed
  have dump: "printBuffer (cells (copied wr1 m)) (min (wire_available wr1) (unat (2 :: u8))) fmt =
      printBuffer (\<lambda>k. [0x01, 0x00, 0x0A, 0x0B] ! k) 2 fmt" for fmt
  proof -
    have n: "min (wire_available wr1) (unat (2 :: u8)) = 2"
      by (simp add: av)
    show ?thesis
      unfolding n by (rule printBuffer_cong) (simp add: c)
  qed
  show ?thesis
    unfolding readMBACommand_received [OF r a rd w] mem dump
    by (simp add: read_request_def length_advice_def SOFTWAREWIRE_BUFSIZE_def)
qed

text \<open>
  C1, as the code has it. In the \<open>DeviceType\<close> exchange the receive operation succeeds. It copies
  the four bytes that follow the length byte, the echoed sub-command \<open>01 00\<close> and the
  payload \<open>0A 0B\<close>, to the start of the caller's buffer, dumps the first \<open>len = 2\<close> of
  them (\<open>01 00\<close>), and reverses the first \<open>len = 2\<close> bytes: the buffer then starts
  \<open>00 01 0A 0B\<close>, and nothing else of the memory has changed.
\<close>

theorem readMBACommand_DeviceType_scenario:
  "getMBACommandInfoByName (Some ''DeviceType'') = Some (MBACommandsInfo ! 0) \<and>
   cmd (MBACommandsInfo ! 0) = 0x0001 \<and>
   readMBACommand deviceType_reply address (MBACommandsInfo ! 0) 32 m =
     (True,
      \<lparr>cells = (\<lambda>k. if k < 4 then [0x00, 0x01, 0x0A, 0x0B] ! k else cells m k),
       writes = writes m @ [0, 1, 2, 3, 0, 1]\<rparr>,
      [WireBegin address, WireWrite 0x44, WireEnd False, WireRequest address 32,
       Print ''Response length: '', PrintDec 2, Print '' bytes'', Newline,
       Print ''Data (hex): '', Print ''0x'', Print ''0'', PrintHex 1, Print '' '',
       Print ''0x'', Print ''0'', PrintHex 0, Print '' '', Newline])"
  unfolding deviceType_exchange DeviceType_entry
  by (simp add: printBuffer_def printHexByte_def upt_conv_Cons)

text \<open>
  Against C1 as the specification has it: after the exchange the caller's buffer does not
  start with the reversed payload \<open>0B 0A\<close>; it starts with the reversed echo
  \<open>00 01\<close>.
\<close>

theorem readMBACommand_DeviceType_scenario_counterexample:
  "map (cells (fst (snd (readMBACommand deviceType_reply 0x0B (MBACommandsInfo ! 0) 32
      blank_memory)))) [0, 1] = [0x00, 0x01] \<and>
   map (cells (fst (snd (readMBACommand deviceType_reply 0x0B (MBACommandsInfo ! 0) 32
      blank_memory)))) [0, 1] \<noteq> [0x0B, 0x0A]"
  unfolding deviceType_exchange by simp

lemma oversize_exchange:
  "\<exists>m' dump.
     readMBACommand oversize_reply address cmdInfo 32 m =
       (True, m',
        [WireBegin address, WireWrite 0x44, WireEnd False, WireRequest address 32,
         Print (warning_sign @ ''  Warning: Block length (''), PrintDec 40,
         Print '' bytes) exceeds buffer limit ('', PrintDec 32,
         Print '' bytes). Truncation may occur.'', Newline] @ dump) \<and>
     writes m' =
       writes m @
       [0, 1, 2, 3, 4, 5, 6, 7, 8, 9, 10, 11, 12, 13, 14, 15, 16, 17, 18, 19, 20, 21, 22,
        23, 24, 25, 26, 27, 28, 29, 30] @
       [0, 39, 1, 38, 2, 37, 3, 36, 4, 35, 5, 34, 6, 33, 7, 32, 8, 31, 9, 30, 10, 29, 11,
        28, 12, 27, 13, 26, 14, 25, 15, 24, 16, 23, 17, 22, 18, 21, 19, 20]"
proof -
  define wr1 :: wire where
    "wr1 = \<lparr>rxBuf = response oversize_reply, rxGet = 1, incoming = []\<rparr>"
  have l: "length (response oversize_reply) = 32"
    by (simp add: oversize_reply_def)
  have rq: "wire_requestFrom oversize_reply (word_of_nat 32) =
      \<lparr>rxBuf = response oversize_reply, rxGet = 0, incoming = []\<rparr>"
    by (simp add: wire_requestFrom_def SOFTWAREWIRE_BUFSIZE_def l) (simp add: oversize_reply_def)
  have r: "readResult oversize_reply = 0"
    by (simp add: oversize_reply_def)
  have a: "3 \<le> wire_available (wire_requestFrom oversize_reply (word_of_nat 32))"
    unfolding rq by (simp add: wire_available_def l)
  have rd: "wire_read (wire_requestFrom oversize_reply (word_of_nat 32)) = (0x28, wr1)"
    unfolding rq by (simp add: wire_read_def wr1_def l) (simp add: oversize_reply_def)
  have av: "wire_available wr1 = 31"
    by (simp add: wire_available_def wr1_def l)
  have w: "readMBACommand_wait 0x28 0 wr1 = (True, wr1, [])"
    by (rule readMBACommand_wait_ready) (simp add: av SOFTWAREWIRE_BUFSIZE_def)
  have cw: "writes (copied wr1 m) = writes m @ [0..<31]"
    by (simp add: copied_def av)
  have "writes (reverseBufferEndian (unat (0x28 :: u8)) (copied wr1 m)) =
       writes m @
       [0, 1, 2, 3, 4, 5, 6, 7, 8, 9, 10, 11, 12, 13, 14, 15, 16, 17, 18, 19, 20, 21, 22,
        23, 24, 25, 26, 27, 28, 29, 30] @
       [0, 39, 1, 38, 2, 37, 3, 36, 4, 35, 5, 34, 6, 33, 7, 32, 8, 31, 9, 30, 10, 29, 11,
        28, 12, 27, 13, 26, 14, 25, 15, 24, 16, 23, 17, 22, 18, 21, 19, 20]"
    by (simp add: writes_reverseBufferEndian cw upt_conv_Cons)
  then show ?thesis
    unfolding readMBACommand_received [OF r a rd w]
    by (simp add: read_request_def length_advice_def SOFTWAREWIRE_BUFSIZE_def)
qed

text \<open>
  C2. With a 32-byte buffer and a block that declares 40 bytes, the receive operation
  proceeds and succeeds, prints the truncation advisory, and copies the 31 readable bytes to
  the indices 0 to 30. The reversal then runs over the declared 40 bytes and stores to the
  indices 32 to 39, which lie outside the buffer.
\<close>

theorem readMBACommand_oversize_block:
  "(case readMBACommand oversize_reply 0x0B (MBACommandsInfo ! 0) 32 blank_memory of
      (ok, m', es) \<Rightarrow>
        ok \<and>
        take 10 es =
          [WireBegin 0x0B, WireWrite 0x44, WireEnd False, WireRequest 0x0B 32,
           Print (warning_sign @ ''  Warning: Block length (''), PrintDec 40,
           Print '' bytes) exceeds buffer limit ('', PrintDec 32,
           Print '' bytes). Truncation may occur.'', Newline] \<and>
        take 31 (writes m') =
          [0, 1, 2, 3, 4, 5, 6, 7, 8, 9, 10, 11, 12, 13, 14, 15, 16, 17, 18, 19, 20, 21, 22,
           23, 24, 25, 26, 27, 28, 29, 30] \<and>
        drop 31 (writes m') =
          [0, 39, 1, 38, 2, 37, 3, 36, 4, 35, 5, 34, 6, 33, 7, 32, 8, 31, 9, 30, 10, 29, 11,
           28, 12, 27, 13, 26, 14, 25, 15, 24, 16, 23, 17, 22, 18, 21, 19, 20] \<and>
        filter (\<lambda>i. 32 \<le> i) (writes m') = [39, 38, 37, 36, 35, 34, 33, 32])"
proof -
  from oversize_exchange [of "0x0B" "MBACommandsInfo ! 0" blank_memory]
  obtain m' dump where
    r: "readMBACommand oversize_reply 0x0B (MBACommandsInfo ! 0) 32 blank_memory =
       (True, m',
        [WireBegin 0x0B, WireWrite 0x44, WireEnd False, WireRequest 0x0B 32,
         Print (warning_sign @ ''  Warning: Block length (''), PrintDec 40,
         Print '' bytes) exceeds buffer limit ('', PrintDec 32,
         Print '' bytes). Truncation may occur.'', Newline] @ dump)"
    and w: "writes m' =
       writes blank_memory @
       [0, 1, 2, 3, 4, 5, 6, 7, 8, 9, 10, 11, 12, 13, 14, 15, 16, 17, 18, 19, 20, 21, 22,
        23, 24, 25, 26, 27, 28, 29, 30] @
       [0, 39, 1, 38, 2, 37, 3, 36, 4, 35, 5, 34, 6, 33, 7, 32, 8, 31, 9, 30, 10, 29, 11,
        28, 12, 27, 13, 26, 14, 25, 15, 24, 16, 23, 17, 22, 18, 21, 19, 20]"
    by blast
  have b: "writes blank_memory = []"
    by (simp add: blank_memory_def)
  show ?thesis
    by (simp add: r w b)
qed

section \<open>The receive operation: oversize blocks and well-formed replies\<close>

lemma readMBACommand_transport_failure:
  "readResult dev \<noteq> 0 \<Longrightarrow> fst (readMBACommand dev address cmdInfo bufferSize m) = False"
  by (simp add: readMBACommand_def Let_def)

lemma readMBACommand_timeout:
  assumes "readResult dev = 0"
    and "3 \<le> wire_available (wire_requestFrom dev (word_of_nat bufferSize))"
    and "wire_read (wire_requestFrom dev (word_of_nat bufferSize)) = (len, wr1)"
    and "readMBACommand_wait len 0 wr1 = (False, wr2, polls)"
  shows "readMBACommand dev address cmdInfo bufferSize m =
     (False, m, read_request address bufferSize @ polls)"
  using assms
  by (simp add: readMBACommand_def Let_def read_request_def println_def
      MANUFACTURER_BLOCK_ACCESS_COMMAND_def)

lemma readMBACommand_True:
  assumes "readMBACommand dev address cmdInfo bufferSize m = (True, m', es)"
    and "wire_read (wire_requestFrom dev (word_of_nat bufferSize)) = (len, wr1)"
  shows "readResult dev = 0 \<and>
         3 \<le> wire_available (wire_requestFrom dev (word_of_nat bufferSize)) \<and>
         (\<exists>wr2 polls. readMBACommand_wait len 0 wr1 = (True, wr2, polls))"
proof (intro conjI)
  show r: "readResult dev = 0"
    using readMBACommand_transport_failure [of dev address cmdInfo bufferSize m] assms(1)
    by auto
  show a: "3 \<le> wire_available (wire_requestFrom dev (word_of_nat bufferSize))"
  proof (rule ccontr)
    assume "\<not> 3 \<le> wire_available (wire_requestFrom dev (word_of_nat bufferSize))"
    then have "wire_available (wire_requestFrom dev (word_of_nat bufferSize)) < 3"
      by simp
    from readMBACommand_insufficient [OF r this] assms(1) show False
      by simp
  qed
  obtain ready wr2 polls where w: "readMBACommand_wait len 0 wr1 = (ready, wr2, polls)"
    by (cases "readMBACommand_wait len 0 wr1") auto
  have ready
  proof (rule ccontr)
    assume "\<not> ready"
    with w have "readMBACommand_wait len 0 wr1 = (False, wr2, polls)"
      by simp
    from readMBACommand_timeout [OF r a assms(2) this] assms(1) show False
      by simp
  qed
  with w show "\<exists>wr2 polls. readMBACommand_wait len 0 wr1 = (True, wr2, polls)"
    by auto
qed

text \<open>
  Whenever the receive operation succeeds on a block whose declared length exceeds the
  buffer size, the reversal stores to the index \<open>len - 1\<close>, outside the buffer.
\<close>

lemma readMBACommand_overflow:
  assumes "readMBACommand dev address cmdInfo bufferSize m = (True, m', es)"
    and "wire_read (wire_requestFrom dev (word_of_nat bufferSize)) = (len, wr1)"
    and "bufferSize < unat len" and "2 \<le> unat len"
  shows "unat len - 1 \<in> set (drop (length (writes m)) (writes m')) \<and> bufferSize \<le> unat len - 1"
proof -
  from readMBACommand_True [OF assms(1,2)] obtain wr2 polls where
    r: "readResult dev = 0"
    and a: "3 \<le> wire_available (wire_requestFrom dev (word_of_nat bufferSize))"
    and w: "readMBACommand_wait len 0 wr1 = (True, wr2, polls)"
    by auto
  from assms(1) have m': "m' = reverseBufferEndian (unat len) (copied wr2 m)"
    unfolding readMBACommand_received [OF r a assms(2) w] by simp
  from assms(4) have "0 < unat len div 2"
    by arith
  then have "[0..<unat len div 2] = 0 # [1..<unat len div 2]"
    by (simp add: upt_conv_Cons)
  then have "unat len - 1 \<in> set (concat (map (\<lambda>j. [j, unat len - 1 - j]) [0..<unat len div 2]))"
    by simp
  then have "unat len - 1 \<in> set (drop (length (writes m)) (writes m'))"
    unfolding m' writes_reverseBufferEndian by (simp add: copied_def)
  with assms(3) show ?thesis by simp
qed

text \<open>
  A reply in the device's own format counts the two echoed bytes in its length. For a
  32-bit status word \<open>b3 b2 b1 b0\<close> sent low byte first, the buffer holds the word high
  byte first after the reversal, followed by the echo: the layout the decoder reads.
\<close>

lemma status_exchange:
  assumes "readResult dev = 0" and "response dev = [6, e0, e1, b0, b1, b2, b3]"
  shows "\<exists>es. readMBACommand dev address cmdInfo 32 m =
     (True,
      \<lparr>cells = (\<lambda>k. if k < 6 then [b3, b2, b1, b0, e1, e0] ! k else cells m k),
       writes = writes m @ [0, 1, 2, 3, 4, 5, 0, 5, 1, 4, 2, 3]\<rparr>,
      es)"
proof -
  define wr1 :: wire where
    "wr1 = \<lparr>rxBuf = [6, e0, e1, b0, b1, b2, b3], rxGet = 1, incoming = late dev\<rparr>"
  have rq: "wire_requestFrom dev (word_of_nat 32) =
      \<lparr>rxBuf = [6, e0, e1, b0, b1, b2, b3], rxGet = 0, incoming = late dev\<rparr>"
    by (simp add: wire_requestFrom_def assms SOFTWAREWIRE_BUFSIZE_def)
  have a: "3 \<le> wire_available (wire_requestFrom dev (word_of_nat 32))"
    unfolding rq by (simp add: wire_available_def)
  have rd: "wire_read (wire_requestFrom dev (word_of_nat 32)) = (6, wr1)"
    unfolding rq by (simp add: wire_read_def wr1_def)
  have av: "wire_available wr1 = 6"
    by (simp add: wire_available_def wr1_def)
  have w: "readMBACommand_wait 6 0 wr1 = (True, wr1, [])"
    by (rule readMBACommand_wait_ready) (simp add: av)
  have c: "cells (copied wr1 m) = (\<lambda>k. if k < 6 then [e0, e1, b0, b1, b2, b3] ! k else cells m k)"
    unfolding copied_def av by (auto simp: wr1_def fun_eq_iff)
  have cw: "writes (copied wr1 m) = writes m @ [0, 1, 2, 3, 4, 5]"
    by (simp add: copied_def av upt_conv_Cons)
  have mem: "reverseBufferEndian (unat (6 :: u8)) (copied wr1 m) =
      \<lparr>cells = (\<lambda>k. if k < 6 then [b3, b2, b1, b0, e1, e0] ! k else cells m k),
       writes = writes m @ [0, 1, 2, 3, 4, 5, 0, 5, 1, 4, 2, 3]\<rparr>"
  proof (rule memory_eqI)
    have "cells (reverseBufferEndian (unat (6 :: u8)) (copied wr1 m)) k =
        (if k < 6 then [b3, b2, b1, b0, e1, e0] ! k else cells m k)" for k
    proof -
      consider "k = 0" | "k = 1" | "k = 2" | "k = 3" | "k = 4" | "k = 5" | "6 \<le> k"
        by arith
      then show ?thesis
        by cases (simp_all add: cells_reverseBufferEndian c)
    qed
    then show "cells (reverseBufferEndian (unat (6 :: u8)) (copied wr1 m)) =
        cells \<lparr>cells = (\<lambda>k. if k < 6 then [b3, b2, b1, b0, e1, e0] ! k else cells m k),
               writes = writes m @ [0, 1, 2, 3, 4, 5, 0, 5, 1, 4, 2, 3]\<rparr>"
      by (simp add: fun_eq_iff)
    show "writes (reverseBufferEndian (unat (6 :: u8)) (copied wr1 m)) =
        writes \<lparr>cells = (\<lambda>k. if k < 6 then [b3, b2, b1, b0, e1, e0] ! k else cells m k),
                writes = writes m @ [0, 1, 2, 3, 4, 5, 0, 5, 1, 4, 2, 3]\<rparr>"
      by (simp add: writes_reverseBufferEndian cw upt_conv_Cons)
  qed
  show ?thesis
    unfolding readMBACommand_received [OF assms(1) a rd w] mem by simp
qed

section \<open>The command runner\<close>

lemma serial_no_delay: "\<forall>e\<in>set es. is_serial e \<Longrightarrow> Delay d \<notin> set es"
  by auto

lemma serial_filter: "\<forall>e\<in>set es. is_serial e \<Longrightarrow> filter is_serial es = es"
  by (induction es) auto

lemma printHexByte_serial: "\<forall>e\<in>set (printHexByte x). is_serial e"
  by (simp add: printHexByte_def)

lemma printMBACommandError_serial: "\<forall>e\<in>set (printMBACommandError r). is_serial e"
  by (simp add: printMBACommandError_def println_def)

lemma printBuffer_serial: "\<forall>e\<in>set (printBuffer buf n fmt). is_serial e"
  by (cases fmt) (auto simp: printBuffer_def printHexByte_def)

lemma printBuffer_ends: "\<exists>xs. printBuffer buf n fmt = xs @ [Newline]"
proof -
  have "printBuffer buf n fmt \<noteq> [] \<and> last (printBuffer buf n fmt) = Newline"
    by (cases fmt) (simp_all add: printBuffer_def)
  then show ?thesis
    by (metis append_butlast_last_id)
qed

lemma printMBACommandInfo_serial: "\<forall>e\<in>set (printMBACommandInfo c). is_serial e"
  by (auto simp: printMBACommandInfo_def printHexByte_def)

lemma printMBACommandInfo_ends: "\<exists>xs. printMBACommandInfo c = xs @ [Newline]"
  unfolding printMBACommandInfo_def by (metis append_Cons append_assoc append_Nil)

lemma printBitField_serial: "\<forall>e\<in>set (printBitField buf n c b). is_serial e"
  by (auto simp: printBitField_def println_def split: option.splits)

lemma printBitFields_serial: "\<forall>e\<in>set (printBitFields buf n bs c). is_serial e"
  using printBitField_serial by (auto simp: printBitFields_def)

lemma printBitField_ends:
  "description b \<noteq> None \<Longrightarrow> \<exists>xs. printBitField buf n c b = xs @ [Newline]"
  unfolding printBitField_def println_def
  by (cases "description b") (auto intro: exI [of _ "_ @ [_, _]"])


lemma printBitFields_ends:
  assumes "0 < unat c" and "description (bs ! (unat c - 1)) \<noteq> None"
  shows "\<exists>xs. printBitFields buf n bs c = xs @ [Newline]"
proof -
  from assms(1) obtain k where k: "unat c = Suc k"
    by (cases "unat c") auto
  with assms(2) obtain xs where "printBitField buf n c (bs ! k) = xs @ [Newline]"
    using printBitField_ends [of "bs ! k" buf n c] by auto
  then have "printBitFields buf n bs c =
      (concat (map (\<lambda>i. printBitField buf n c (bs ! i)) [0..<k]) @ xs) @ [Newline]"
    by (simp add: printBitFields_def k)
  then show ?thesis ..
qed

lemma catalog_decoding_ends:
  assumes "c \<in> set MBACommandsInfo" and "bitfields c = Some bs" and "0 < bitfieldCount c"
  shows "\<exists>xs. printBitFields buf n bs (bitfieldCount c) = xs @ [Newline]"
proof (rule printBitFields_ends)
  from assms(3) show pos: "0 < unat (bitfieldCount c)"
    by (simp add: word_greater_zero_iff unat_gt_0)
  from catalog_schemas assms have bs: "bs \<in> {safetyAlertBits, safetyStatusBits, pfAlertBits,
      pfStatusBits, operationStatusBits, ManufacturingStatusBits}"
    and len: "unat (bitfieldCount c) = length bs"
    by blast+
  from pos len have "bs ! (unat (bitfieldCount c) - 1) \<in> set bs"
    by simp
  with bs schema_descriptions show "description (bs ! (unat (bitfieldCount c) - 1)) \<noteq> None"
    by auto
qed

lemma sendMBACommand_sent:
  "sendMBACommand dev address c = (True, tx) \<Longrightarrow>
   filter is_serial tx = [] \<and> Delay 100 \<notin> set tx"
  by (auto simp: sendMBACommand_def Let_def filter_empty_conv split: if_splits)

lemma sendMBACommand_no_settle: "Delay 100 \<notin> set (snd (sendMBACommand dev address c))"
  using serial_no_delay [OF printMBACommandError_serial, of 100 "sendResult dev"]
  by (auto simp: sendMBACommand_def Let_def)

lemma read_request_no_settle: "Delay 100 \<notin> set (read_request address n)"
  by (simp add: read_request_def)

lemma length_advice_serial: "\<forall>e\<in>set (length_advice len n). is_serial e"
  by (simp add: length_advice_def)

lemma timeout_message_serial: "\<forall>e\<in>set (timeout_message n). is_serial e"
  by (simp add: timeout_message_def println_def)

lemma readMBACommand_wait_no_settle:
  assumes "readMBACommand_wait len t wr = (ok, wr', es)"
  shows "Delay 100 \<notin> set es"
proof -
  from readMBACommand_wait_events [OF assms] obtain k where
    "es = replicate k (Delay 10) @ (if ok then [] else timeout_message (wire_available wr'))"
    by blast
  then show ?thesis
    using serial_no_delay [OF timeout_message_serial, of 100 "wire_available wr'"] by auto
qed

lemma readMBACommand_outcome:
  assumes "readMBACommand dev address cmdInfo bufferSize m = (ok, m', es)"
  shows "Delay 100 \<notin> set es \<and>
         (ok \<longrightarrow> (\<exists>pre buf n. es = pre @ printBuffer buf n (displayFormat cmdInfo)))"
proof (cases "readResult dev = 0")
  case False
  with assms have "\<not> ok" and "Delay 100 \<notin> set es"
    using serial_no_delay [OF printMBACommandError_serial, of 100 "readResult dev"]
    by (auto simp: readMBACommand_def Let_def println_def)
  then show ?thesis
    by simp
next
  case r: True
  show ?thesis
  proof (cases "wire_available (wire_requestFrom dev (word_of_nat bufferSize)) < 3")
    case True
    from assms show ?thesis
      unfolding readMBACommand_insufficient [OF r True]
      using read_request_no_settle [of address bufferSize] by auto
  next
    case False
    then have a: "3 \<le> wire_available (wire_requestFrom dev (word_of_nat bufferSize))"
      by simp
    obtain len wr1 where rd: "wire_read (wire_requestFrom dev (word_of_nat bufferSize)) = (len, wr1)"
      by (cases "wire_read (wire_requestFrom dev (word_of_nat bufferSize))") auto
    obtain ready wr2 polls where w: "readMBACommand_wait len 0 wr1 = (ready, wr2, polls)"
      by (cases "readMBACommand_wait len 0 wr1") auto
    note np = readMBACommand_wait_no_settle [OF w]
    show ?thesis
    proof (cases ready)
      case True
      with w have w': "readMBACommand_wait len 0 wr1 = (True, wr2, polls)"
        by simp
      from assms have ok: "ok"
        and es: "es = (read_request address bufferSize @ polls @ length_advice len bufferSize) @
          printBuffer (cells (copied wr2 m)) (min (wire_available wr2) (unat len))
            (displayFormat cmdInfo)"
        unfolding readMBACommand_received [OF r a rd w'] by auto
      have "Delay 100 \<notin> set es"
        unfolding es
        using np read_request_no_settle [of address bufferSize]
          serial_no_delay [OF length_advice_serial, of 100 len bufferSize]
          serial_no_delay [OF printBuffer_serial, of 100 "cells (copied wr2 m)"
            "min (wire_available wr2) (unat len)" "displayFormat cmdInfo"]
        by auto
      with es show ?thesis by blast
    next
      case False
      with assms r a rd w have "\<not> ok" and "es = read_request address bufferSize @ polls"
        by (auto simp: readMBACommand_def Let_def read_request_def println_def
            MANUFACTURER_BLOCK_ACCESS_COMMAND_def)
      then show ?thesis
        using np read_request_no_settle [of address bufferSize] by auto
    qed
  qed
qed

lemma readMBACommand_received_ends:
  assumes "readMBACommand dev address cmdInfo bufferSize m = (True, m', es)"
  shows "\<exists>xs. filter is_serial es = xs @ [Newline]"
proof -
  from readMBACommand_outcome [OF assms] obtain pre buf n where
    es: "es = pre @ printBuffer buf n (displayFormat cmdInfo)"
    by blast
  obtain ys where ys: "printBuffer buf n (displayFormat cmdInfo) = ys @ [Newline]"
    using printBuffer_ends by blast
  have "filter is_serial es = filter is_serial pre @ printBuffer buf n (displayFormat cmdInfo)"
    unfolding es using printBuffer_serial [of buf n "displayFormat cmdInfo"]
    by (simp add: serial_filter)
  then have "filter is_serial es = (filter is_serial pre @ ys) @ [Newline]"
    by (simp add: ys)
  then show ?thesis ..
qed

lemma blank_lineI: "filter is_serial es = xs @ [Newline, Newline] \<Longrightarrow> ends_with_blank_line es"
  by (simp add: ends_with_blank_line_def suffix_def)

lemma runMBACommand_outcome:
  assumes "runMBACommand pooled dev address cmdName m = (ok, m', es)"
  shows "ends_with_blank_line es \<and>
         (if ok then \<exists>es'. es = es' @ [Newline, Delay 100] \<and> Delay 100 \<notin> set es'
          else (\<exists>es'. es = es' @ [Newline, Newline]) \<and> Delay 100 \<notin> set es)"
proof (cases "getMBACommandInfoByName cmdName")
  case None
  with assms have ok: "\<not> ok"
    and es: "es = [Print ''Command not found: '',
                   Print (case cmdName of None \<Rightarrow> [] | Some s \<Rightarrow> s), Newline, Newline]"
    by (auto simp: runMBACommand_def println_def)
  have "filter is_serial es =
      [Print ''Command not found: '', Print (case cmdName of None \<Rightarrow> [] | Some s \<Rightarrow> s)] @
      [Newline, Newline]"
    by (simp add: es)
  then have blank: "ends_with_blank_line es"
    by (rule blank_lineI)
  have tail: "\<exists>es'. es = es' @ [Newline, Newline]"
    by (rule exI [of _ "[Print ''Command not found: '',
          Print (case cmdName of None \<Rightarrow> [] | Some s \<Rightarrow> s)]"]) (simp add: es)
  have quiet: "Delay 100 \<notin> set es"
    by (simp add: es)
  from ok blank tail quiet show ?thesis by simp
next
  case (Some c)
  define start where "start = Print ''Starting command '' # printMBACommandInfo c"
  have start_serial: "\<forall>e\<in>set start. is_serial e"
    using printMBACommandInfo_serial [of c] by (simp add: start_def)
  note start_quiet = serial_no_delay [OF start_serial, of 100]
  obtain ss where ss: "start = ss @ [Newline]"
  proof -
    obtain xs where "printMBACommandInfo c = xs @ [Newline]"
      using printMBACommandInfo_ends [of c] by blast
    then have "start = (Print ''Starting command '' # xs) @ [Newline]"
      by (simp add: start_def)
    then show ?thesis ..
  qed
  from lookup_Some_name [OF Some] have cat: "c \<in> set MBACommandsInfo"
    by simp
  obtain sent tx where tx: "sendMBACommand dev address c = (sent, tx)"
    by (cases "sendMBACommand dev address c") auto
  have tx_quiet: "Delay 100 \<notin> set tx"
    using sendMBACommand_no_settle [of dev address c] by (simp add: tx)
  show ?thesis
  proof (cases sent)
    case False
    with assms Some tx have ok: "\<not> ok"
      and es: "es = start @ tx @ [Print ''Failed to send command.'', Newline, Newline]"
      by (auto simp: runMBACommand_def Let_def println_def start_def)
    have "filter is_serial es =
        (filter is_serial (start @ tx) @ [Print ''Failed to send command.'']) @ [Newline, Newline]"
      by (simp add: es)
    then have blank: "ends_with_blank_line es"
      by (rule blank_lineI)
    have tail: "\<exists>es'. es = es' @ [Newline, Newline]"
      by (rule exI [of _ "start @ tx @ [Print ''Failed to send command.'']"]) (simp add: es)
    have quiet: "Delay 100 \<notin> set es"
      using start_quiet tx_quiet by (simp add: es)
    from ok blank tail quiet show ?thesis by simp
  next
    case sent: True
    with tx have tx_serial: "filter is_serial tx = []"
      using sendMBACommand_sent [of dev address c tx] by simp
    show ?thesis
    proof (cases "same_literal pooled (access c) ''W''")
      case True
      with assms Some tx sent have ok: "ok" and es: "es = (start @ tx) @ [Newline, Delay 100]"
        by (auto simp: runMBACommand_def Let_def start_def)
      have "filter is_serial es = ss @ [Newline, Newline]"
        by (simp add: es tx_serial serial_filter [OF start_serial]) (simp add: ss)
      then have "ends_with_blank_line es"
        by (rule blank_lineI)
      moreover have "Delay 100 \<notin> set (start @ tx)"
        using start_quiet tx_quiet by simp
      ultimately show ?thesis
        using ok es by auto
    next
      case readable: False
      obtain received m1 rx where
        rx: "readMBACommand dev address c SOFTWAREWIRE_BUFSIZE m = (received, m1, rx)"
        by (cases "readMBACommand dev address c SOFTWAREWIRE_BUFSIZE m") auto
      from readMBACommand_outcome [OF rx] have rx_quiet: "Delay 100 \<notin> set rx"
        by simp
      show ?thesis
      proof (cases received)
        case False
        with assms Some tx sent readable rx have ok: "\<not> ok"
          and es: "es = start @ tx @ rx @ [Print ''Failed to read command response'', Newline, Newline]"
          by (auto simp: runMBACommand_def Let_def println_def start_def)
        have "filter is_serial es =
            (filter is_serial (start @ tx @ rx) @ [Print ''Failed to read command response'']) @
            [Newline, Newline]"
          by (simp add: es)
        then have blank: "ends_with_blank_line es"
          by (rule blank_lineI)
        have tail: "\<exists>es'. es = es' @ [Newline, Newline]"
          by (rule exI [of _ "start @ tx @ rx @ [Print ''Failed to read command response'']"])
            (simp add: es)
        have quiet: "Delay 100 \<notin> set es"
          using start_quiet tx_quiet rx_quiet by (simp add: es)
        from ok blank tail quiet show ?thesis by simp
      next
        case received: True
        define bits where "bits =
          (case bitfields c of
             None \<Rightarrow> []
           | Some bs \<Rightarrow>
               if bitfieldCount c > 0
               then printBitFields (cells m1) (SOFTWAREWIRE_BUFSIZE - 2) bs (bitfieldCount c)
               else [])"
        from assms Some tx sent readable rx received have ok: "ok"
          and es: "es = (start @ tx @ rx @ bits) @ [Newline, Delay 100]"
          by (auto simp: runMBACommand_def Let_def start_def bits_def)
        have bits_serial: "\<forall>e\<in>set bits. is_serial e"
          using printBitFields_serial by (auto simp: bits_def split: option.splits)
        note bits_quiet = serial_no_delay [OF bits_serial, of 100]
        from rx received obtain rs where rs: "filter is_serial rx = rs @ [Newline]"
          using readMBACommand_received_ends [of dev address c SOFTWAREWIRE_BUFSIZE m m1 rx]
          by auto
        have "\<exists>ys. filter is_serial (rx @ bits) = ys @ [Newline]"
        proof (cases "bits = []")
          case True
          then show ?thesis by (simp add: rs)
        next
          case False
          then obtain bs where bs: "bitfields c = Some bs" "0 < bitfieldCount c"
            and b: "bits = printBitFields (cells m1) (SOFTWAREWIRE_BUFSIZE - 2) bs (bitfieldCount c)"
            by (auto simp: bits_def split: option.splits if_splits)
          from catalog_decoding_ends [OF cat bs] obtain xs where
            "bits = xs @ [Newline]"
            unfolding b by blast
          then have "filter is_serial (rx @ bits) = (filter is_serial rx @ xs) @ [Newline]"
            using serial_filter [OF bits_serial] by simp
          then show ?thesis ..
        qed
        then obtain ys where ys: "filter is_serial (rx @ bits) = ys @ [Newline]"
          by blast
        have "filter is_serial es = filter is_serial start @ filter is_serial (rx @ bits) @ [Newline]"
          by (simp add: es tx_serial)
        also have "\<dots> = (filter is_serial start @ ys) @ [Newline, Newline]"
          unfolding ys by simp
        finally have "ends_with_blank_line es"
          by (rule blank_lineI)
        moreover have "Delay 100 \<notin> set (start @ tx @ rx @ bits)"
          using start_quiet tx_quiet rx_quiet bits_quiet by simp
        ultimately show ?thesis
          using ok es by auto
      qed
    qed
  qed
qed

text \<open>
  C3, as the code has it. On every return path the runner's console output ends with a blank
  line. On the paths that return success (a write-only command, or a read with or without
  bit-field decoding) the last two things the runner does are the empty \<open>println\<close> and
  the 100 ms settle delay, which is the only delay of 100 ms in the run. On the paths that
  return failure (command not found, send failure, read failure) the last two things the
  runner does are the line end of its failure message and the empty \<open>println\<close>: it
  returns right after the blank line, and there is no 100 ms delay in the run.
\<close>

theorem runMBACommand_trailer:
  "(case runMBACommand pooled dev address cmdName m of
      (ok, m', es) \<Rightarrow>
        ends_with_blank_line es \<and>
        (if ok then \<exists>es'. es = es' @ [Newline, Delay 100] \<and> Delay 100 \<notin> set es'
         else (\<exists>es'. es = es' @ [Newline, Newline]) \<and> Delay 100 \<notin> set es))"
proof (cases "runMBACommand pooled dev address cmdName m")
  case (fields ok m' es)
  from runMBACommand_outcome [OF fields] show ?thesis
    unfolding fields by simp
qed


lemma DeviceType_start:
  "printMBACommandInfo (MBACommandsInfo ! 0) =
     [Print ''DeviceType'', Print '' : CMD=0x'', PrintHex 68, Print '', SUBCMD=0x'',
      Print ''0'', PrintHex 0, Print ''0'', PrintHex 1, Newline]"
  by (simp add: printMBACommandInfo_def DeviceType_entry printHexByte_def lowByte_def
      highByte_def MANUFACTURER_BLOCK_ACCESS_COMMAND_def)

lemma DeviceType_send:
  "sendResult dev = 0 \<Longrightarrow>
   sendMBACommand dev address (MBACommandsInfo ! 0) =
     (True, [WireBegin address, WireWrite 0x44, WireWrite 0x02, WireWrite 0x01, WireWrite 0x00,
             WireEnd True, Delay 20])"
  by (simp add: sendMBACommand_def DeviceType_entry lowByte_def highByte_def Let_def
      MANUFACTURER_BLOCK_ACCESS_COMMAND_def)

text \<open>
  Against C3 as the specification has it: when the device answers the read request of
  \<open>DeviceType\<close> with two bytes only, the runner reports the failed read, prints the
  blank line and returns false; there is no 100 ms delay in the run.
\<close>

theorem runMBACommand_trailer_counterexample:
  "runMBACommand True short_reply 0x0B (Some ''DeviceType'') blank_memory =
     (False, blank_memory,
      [Print ''Starting command '', Print ''DeviceType'', Print '' : CMD=0x'', PrintHex 68,
       Print '', SUBCMD=0x'', Print ''0'', PrintHex 0, Print ''0'', PrintHex 1, Newline,
       WireBegin 0x0B, WireWrite 0x44, WireWrite 0x02, WireWrite 0x01, WireWrite 0x00,
       WireEnd True, Delay 20,
       WireBegin 0x0B, WireWrite 0x44, WireEnd False, WireRequest 0x0B 32,
       Print ''No data available to read'', Newline,
       Print ''Failed to read command response'', Newline, Newline]) \<and>
   Delay 100 \<notin> set (snd (snd (runMBACommand True short_reply 0x0B (Some ''DeviceType'')
      blank_memory)))"
proof -
  have r: "readResult short_reply = 0" and s: "sendResult short_reply = 0"
    by (simp_all add: short_reply_def)
  have a: "wire_available (wire_requestFrom short_reply (word_of_nat 32)) < 3"
    by (simp add: short_reply_def wire_available_def wire_requestFrom_def SOFTWAREWIRE_BUFSIZE_def)
  have run: "runMBACommand True short_reply 0x0B (Some ''DeviceType'') blank_memory =
     (False, blank_memory,
      [Print ''Starting command '', Print ''DeviceType'', Print '' : CMD=0x'', PrintHex 68,
       Print '', SUBCMD=0x'', Print ''0'', PrintHex 0, Print ''0'', PrintHex 1, Newline,
       WireBegin 0x0B, WireWrite 0x44, WireWrite 0x02, WireWrite 0x01, WireWrite 0x00,
       WireEnd True, Delay 20,
       WireBegin 0x0B, WireWrite 0x44, WireEnd False, WireRequest 0x0B 32,
       Print ''No data available to read'', Newline,
       Print ''Failed to read command response'', Newline, Newline])"
    unfolding runMBACommand_def DeviceType_entry
    by (simp add: DeviceType_start DeviceType_send [OF s] readMBACommand_insufficient [OF r a]
        DeviceType_entry same_literal_def println_def read_request_def SOFTWAREWIRE_BUFSIZE_def)
  show ?thesis
    unfolding run by simp
qed

text \<open>
  Where equal string literals are stored once, every catalog entry whose access is \<open>W\<close>
  runs as a write-only command: when the bus layer reports no error the runner returns
  success after printing the start line, sending the write frame of the specification,
  waiting 20 ms, printing the blank line and waiting 100 ms. There is no read request and
  no store to the buffer, and nothing is decoded.
\<close>

lemma runMBACommand_write_only_pooled:
  assumes "pooled" and "c \<in> set MBACommandsInfo" and "access c = ''W''"
    and "sendResult dev = 0"
  shows "runMBACommand pooled dev address (Some (name c)) m =
     (True, m,
      Print ''Starting command '' # printMBACommandInfo c @
      [WireBegin address] @ map WireWrite (spec_write_frame c) @
      [WireEnd True, Delay 20, Newline, Delay 100])"
proof -
  from assms(2) catalog_payloads have "unat (dataLength c) \<le> length (data c)"
    by auto
  from spec_write_frame_eq [OF this] assms(4)
  have "sendMBACommand dev address c =
      (True, [WireBegin address] @ map WireWrite (spec_write_frame c) @ [WireEnd True, Delay 20])"
    by (simp add: sendMBACommand_def Let_def MANUFACTURER_BLOCK_ACCESS_COMMAND_def comp_def)
  with assms(1,3) show ?thesis
    by (simp add: runMBACommand_def lookup_own_name [OF assms(2)] same_literal_def)
qed

lemma runMBACommand_SealDevice_pooled:
  "MBACommandsInfo ! 7 \<in> set MBACommandsInfo \<and>
   name (MBACommandsInfo ! 7) = ''SealDevice'' \<and>
   cmd (MBACommandsInfo ! 7) = 0x0030 \<and>
   access (MBACommandsInfo ! 7) = ''W'' \<and>
   sendResult silent_device = 0 \<and>
   runMBACommand True silent_device 0x0B (Some ''SealDevice'') blank_memory =
     (True, blank_memory,
      [Print ''Starting command '', Print ''SealDevice'', Print '' : CMD=0x'', PrintHex 68,
       Print '', SUBCMD=0x'', Print ''0'', PrintHex 0, PrintHex 48, Newline,
       WireBegin 0x0B, WireWrite 0x44, WireWrite 0x02, WireWrite 0x30, WireWrite 0x00,
       WireEnd True, Delay 20, Newline, Delay 100])"
proof -
  have m: "MBACommandsInfo ! 7 \<in> set MBACommandsInfo"
    by (simp add: MBACommandsInfo_def)
  have e: "name (MBACommandsInfo ! 7) = ''SealDevice''" "cmd (MBACommandsInfo ! 7) = 0x0030"
    "access (MBACommandsInfo ! 7) = ''W''" "dataLength (MBACommandsInfo ! 7) = 0"
    by (simp_all add: MBACommandsInfo_def)
  have s: "sendResult silent_device = 0"
    by (simp add: silent_device_def)
  have p: "printMBACommandInfo (MBACommandsInfo ! 7) =
     [Print ''SealDevice'', Print '' : CMD=0x'', PrintHex 68, Print '', SUBCMD=0x'',
      Print ''0'', PrintHex 0, PrintHex 48, Newline]"
    by (simp add: printMBACommandInfo_def e printHexByte_def lowByte_def highByte_def
        MANUFACTURER_BLOCK_ACCESS_COMMAND_def)
  have f: "spec_write_frame (MBACommandsInfo ! 7) = [0x44, 0x02, 0x30, 0x00]"
    by (simp add: spec_write_frame_def e)
  from runMBACommand_write_only_pooled [OF TrueI m e(3) s, of "0x0B" blank_memory] m e s
  show ?thesis
    unfolding e p f by simp
qed


end
